theory Spec2Isabelle
  imports Main "HOL-Library.Sublist" "HOL-Library.Word"
begin

section \<open>Errors (pkg/api/errors.go)\<close>

text \<open>
  Go's \<open>ErrorType\<close> is a string type; its constants are the strings below.
\<close>

type_synonym ErrorType = string

definition ErrorTypeAuthentication :: ErrorType where
  "ErrorTypeAuthentication = ''authentication_error''"

definition ErrorTypeInvalidRequest :: ErrorType where
  "ErrorTypeInvalidRequest = ''invalid_request_error''"

definition ErrorTypeRateLimit :: ErrorType where
  "ErrorTypeRateLimit = ''rate_limit_error''"

definition ErrorTypeServer :: ErrorType where
  "ErrorTypeServer = ''server_error''"

definition ErrorTypeTimeout :: ErrorType where
  "ErrorTypeTimeout = ''timeout_error''"

definition ErrorTypeConnection :: ErrorType where
  "ErrorTypeConnection = ''connection_error''"

definition ErrorTypeUnknown :: ErrorType where
  "ErrorTypeUnknown = ''unknown_error''"

text \<open>
  A non-nil value of Go's \<open>error\<close> interface, as far as this code can tell values apart:
  the sentinel \<open>io.EOF\<close>, an error of some library (the transport, \<open>encoding/json\<close>, a
  callback of the caller) identified by its text, or the SDK's own \<open>*api.Error\<close> with the
  fields of the struct. A nil error is \<open>None\<close> of \<open>error option\<close>.
\<close>

datatype error =
    io_EOF
  | LibError string
  | Error (Type: ErrorType) (Message: string) (StatusCode: int)
          (Param: string) (Code: string) (RawError: "error option")

definition NewError :: "ErrorType \<Rightarrow> string \<Rightarrow> int \<Rightarrow> error option \<Rightarrow> error" where
  "NewError errType message statusCode rawErr = Error errType message statusCode [] [] rawErr"

section \<open>The SSE reader (pkg/utils/sse.go)\<close>

abbreviation NL :: char where
  "NL \<equiv> CHR 0x0A"

record SSEEvent =
  Event :: string
  Data :: string
  ID :: string
  Retry :: int

text \<open>The zero value \<open>SSEEvent{}\<close>.\<close>

definition SSEEvent_zero :: SSEEvent where
  "SSEEvent_zero = \<lparr>Event = [], Data = [], ID = [], Retry = 0\<rparr>"

text \<open>
  The \<open>bufio.Reader\<close> over the response body: the bytes it has not delivered yet, and
  the error every read returns once they are used up (\<open>io.EOF\<close> at the end of the body,
  another error when the transport breaks). The byte source is taken to keep returning
  that error, as a body at its end does.
\<close>

record Reader =
  pending :: string
  final :: error

text \<open>
  \<open>bufio.Reader.ReadBytes('\n')\<close>: the bytes up to and including the first newline; when
  the source ends first, the bytes read so far together with the error.
\<close>

definition ReadBytes :: "Reader \<Rightarrow> (string \<times> error option) \<times> Reader" where
  "ReadBytes rd =
     (if NL \<in> set (pending rd)
      then ((takeWhile (\<lambda>c. c \<noteq> NL) (pending rd) @ [NL], None),
            rd\<lparr>pending := tl (dropWhile (\<lambda>c. c \<noteq> NL) (pending rd))\<rparr>)
      else ((pending rd, Some (final rd)), rd\<lparr>pending := []\<rparr>))"

text \<open>The field \<open>reader\<close> of the Go struct is \<open>bufReader\<close> here.\<close>

record SSEReader =
  bufReader :: Reader
  delimiter :: string
  event :: SSEEvent
  buffer :: string

definition NewSSEReader :: "Reader \<Rightarrow> SSEReader" where
  "NewSSEReader rd =
     \<lparr>bufReader = rd, delimiter = [NL, NL], event = SSEEvent_zero, buffer = []\<rparr>"

text \<open>\<open>bytes.Split(s, []byte{sep})\<close> for a separator of one byte.\<close>

fun Split :: "char \<Rightarrow> string \<Rightarrow> string list" where
  "Split sep [] = [[]]"
| "Split sep (c # cs) =
     (if c = sep then [] # Split sep cs
      else (case Split sep cs of [] \<Rightarrow> [[c]] | x # xs \<Rightarrow> (c # x) # xs))"

text \<open>\<open>bytes.SplitN(s, []byte{sep}, 2)\<close>: split at the first separator only.\<close>

definition SplitN2 :: "char \<Rightarrow> string \<Rightarrow> string list" where
  "SplitN2 sep s =
     (if sep \<in> set s
      then [takeWhile (\<lambda>c. c \<noteq> sep) s, tl (dropWhile (\<lambda>c. c \<noteq> sep) s)]
      else [s])"

text \<open>The body of the \<open>for _, line := range lines\<close> loop of \<open>processBuffer\<close>.\<close>

definition processLine :: "SSEEvent \<Rightarrow> string \<Rightarrow> SSEEvent" where
  "processLine ev line =
     (if length line = 0 then ev
      else if line ! 0 = CHR '':'' then ev
      else
        let parts = SplitN2 (CHR '':'') line in
        if length parts \<noteq> 2 then ev
        else
          let field = parts ! 0;
              value0 = parts ! 1;
              value = (if length value0 > 0 \<and> value0 ! 0 = CHR '' '' then drop 1 value0 else value0)
          in
            if field = ''event'' then ev\<lparr>Event := value\<rparr>
            else if field = ''data'' then
              ev\<lparr>Data := (if Data ev \<noteq> [] then Data ev @ [NL] else Data ev) @ value\<rparr>
            else if field = ''id'' then ev\<lparr>ID := value\<rparr>
            else if field = ''retry'' then ev\<lparr>Retry := 3000\<rparr>
            else ev)"

definition processBuffer :: "SSEReader \<Rightarrow> SSEEvent" where
  "processBuffer r = foldl processLine SSEEvent_zero (Split NL (buffer r))"

text \<open>
  The \<open>for\<close> loop of \<open>ReadEvent\<close>; each round reads one line. The result is the pair
  \<open>(*SSEEvent, error)\<close> as a sum, with the reader as the call leaves it.
\<close>

function ReadEvent_loop :: "SSEReader \<Rightarrow> (error + SSEEvent) \<times> SSEReader" where
  "ReadEvent_loop r =
     (case ReadBytes (bufReader r) of
        ((line, Some err), rd') \<Rightarrow>
          let r1 = r\<lparr>bufReader := rd'\<rparr> in
          if err = io_EOF \<and> length (buffer r1) > 0 \<and> buffer r1 \<noteq> [NL] then
            let r2 = r1\<lparr>buffer := buffer r1 @ [NL]\<rparr>;
                ev = processBuffer r2;
                r3 = r2\<lparr>buffer := []\<rparr>
            in if Data ev \<noteq> [] \<or> Event ev \<noteq> [] then (Inr ev, r3) else (Inl err, r3)
          else (Inl err, r1)
      | ((line, None), rd') \<Rightarrow>
          let r1 = r\<lparr>bufReader := rd', buffer := buffer r @ line\<rparr> in
          if suffix (delimiter r1) (buffer r1)
             \<or> (length line = 1 \<and> line ! 0 = NL \<and> length (buffer r1) > 1
                 \<and> buffer r1 ! (length (buffer r1) - 2) = NL)
          then
            let ev = processBuffer r1;
                r2 = r1\<lparr>buffer := []\<rparr>
            in if Data ev \<noteq> [] \<or> Event ev \<noteq> [] then (Inr ev, r2) else ReadEvent_loop r2
          else ReadEvent_loop r1)"
  by pat_completeness auto

lemma ReadBytes_line_shrinks:
  assumes "ReadBytes rd = ((line, None), rd')"
  shows "length (pending rd') < length (pending rd)"
proof -
  from assms have nl: "NL \<in> set (pending rd)"
    and rd': "rd' = rd\<lparr>pending := tl (dropWhile (\<lambda>c. c \<noteq> NL) (pending rd))\<rparr>"
    by (auto simp: ReadBytes_def split: if_splits)
  from nl have "0 < length (pending rd)"
    by (cases "pending rd") auto
  moreover have "length (dropWhile (\<lambda>c. c \<noteq> NL) (pending rd)) \<le> length (pending rd)"
    by (rule length_dropWhile_le)
  ultimately have "length (dropWhile (\<lambda>c. c \<noteq> NL) (pending rd)) - 1 < length (pending rd)"
    by linarith
  then show ?thesis
    by (simp add: rd')
qed

termination ReadEvent_loop
  by (relation "measure (\<lambda>r. length (pending (bufReader r)))")
     (auto dest: ReadBytes_line_shrinks [OF sym])

declare ReadEvent_loop.simps [simp del]

definition ReadEvent :: "SSEReader \<Rightarrow> (error + SSEEvent) \<times> SSEReader" where
  "ReadEvent r = ReadEvent_loop (r\<lparr>event := SSEEvent_zero\<rparr>)"

definition ParseSSEData :: "string \<Rightarrow> string" where
  "ParseSSEData data = (if prefix ''data: '' data then drop (length ''data: '') data else data)"

text \<open>
  What a call of \<open>ReadEvent\<close> that returns an event uses up: bytes of the source or
  of the buffer. The recursion of every \<open>Recv\<close> below ends by this measure.
\<close>

definition unread :: "SSEReader \<Rightarrow> nat" where
  "unread r = length (pending (bufReader r)) + length (buffer r)"

lemma ReadBytes_lengths:
  "ReadBytes rd = ((line, e), rd') \<Longrightarrow> length (pending rd') + length line \<le> length (pending rd) \<or> e \<noteq> None"
proof (cases "NL \<in> set (pending rd)")
  case True
  assume rb: "ReadBytes rd = ((line, e), rd')"
  have "length (takeWhile (\<lambda>c. c \<noteq> NL) (pending rd)) + length (dropWhile (\<lambda>c. c \<noteq> NL) (pending rd))
        = length (pending rd)"
    by (metis length_append takeWhile_dropWhile_id)
  moreover obtain x xs where "dropWhile (\<lambda>c. c \<noteq> NL) (pending rd) = x # xs"
    using True by (cases "dropWhile (\<lambda>c. c \<noteq> NL) (pending rd)") (auto simp: dropWhile_eq_Nil_conv)
  ultimately show ?thesis
    using rb True by (auto simp: ReadBytes_def)
next
  case False
  assume "ReadBytes rd = ((line, e), rd')"
  with False show ?thesis
    by (auto simp: ReadBytes_def)
qed

lemma ReadEvent_loop_line_cases:
  assumes "ReadBytes (bufReader r) = ((line, None), rd')"
  shows "ReadEvent_loop r =
           (Inr (processBuffer (r\<lparr>bufReader := rd', buffer := buffer r @ line\<rparr>)),
            r\<lparr>bufReader := rd', buffer := buffer r @ line\<rparr>\<lparr>buffer := []\<rparr>)
         \<or> ReadEvent_loop r = ReadEvent_loop (r\<lparr>bufReader := rd', buffer := buffer r @ line\<rparr>\<lparr>buffer := []\<rparr>)
         \<or> ReadEvent_loop r = ReadEvent_loop (r\<lparr>bufReader := rd', buffer := buffer r @ line\<rparr>)"
  by (subst (1 2 3) ReadEvent_loop.simps [of r])
     (simp only: assms prod.case option.case Let_def, metis)

lemma ReadEvent_loop_unread:
  "ReadEvent_loop r = (res, r') \<Longrightarrow>
     unread r' \<le> unread r \<and> (\<forall>ev. res = Inr ev \<longrightarrow> unread r' < unread r)"
proof (induction "length (pending (bufReader r))" arbitrary: r rule: less_induct)
  case less
  obtain line e rd' where rb: "ReadBytes (bufReader r) = ((line, e), rd')"
    by (metis prod.exhaust)
  show ?case
  proof (cases e)
    case (Some err)
    have "pending rd' = []"
      using rb Some by (auto simp: ReadBytes_def split: if_splits)
    then show ?thesis
      using less.prems rb Some
      by (subst (asm) ReadEvent_loop.simps)
         (auto simp: Let_def unread_def split: if_splits)
  next
    case None
    let ?r1 = "r\<lparr>bufReader := rd', buffer := buffer r @ line\<rparr>"
    let ?r2 = "?r1\<lparr>buffer := []\<rparr>"
    have len: "length (pending rd') + length line \<le> length (pending (bufReader r))"
      using ReadBytes_lengths [OF rb] None by simp
    have line: "Suc 0 \<le> length line"
      using rb None by (auto simp: ReadBytes_def split: if_splits)
    have r1: "unread ?r1 \<le> unread r" and r2: "unread ?r2 < unread r"
      using len line by (simp_all add: unread_def)
    have smaller: "length (pending (bufReader ?r1)) < length (pending (bufReader r))"
      "length (pending (bufReader ?r2)) < length (pending (bufReader r))"
      using len line by simp_all
    from ReadEvent_loop_line_cases [OF rb [unfolded None]]
    consider "ReadEvent_loop r = (Inr (processBuffer ?r1), ?r2)"
      | "ReadEvent_loop r = ReadEvent_loop ?r2" | "ReadEvent_loop r = ReadEvent_loop ?r1"
      by blast
    then show ?thesis
    proof cases
      case 1
      with less.prems r2 show ?thesis
        by auto
    next
      case 2
      with less.prems have "ReadEvent_loop ?r2 = (res, r')"
        by simp
      from less.hyps [OF smaller(2) this] r2 show ?thesis
        by auto
    next
      case 3
      with less.prems have "ReadEvent_loop ?r1 = (res, r')"
        by simp
      from less.hyps [OF smaller(1) this] r1 show ?thesis
        by auto
    qed
  qed
qed

lemma ReadEvent_unread:
  "ReadEvent r = (Inr ev, r') \<Longrightarrow> unread r' < unread r"
  using ReadEvent_loop_unread [of "r\<lparr>event := SSEEvent_zero\<rparr>" "Inr ev" r']
  by (simp add: ReadEvent_def unread_def)

section \<open>The unified types (pkg/api/types.go, pkg/api/client.go)\<close>

text \<open>Go's \<open>Role\<close> is a string type; any string converts to it.\<close>

type_synonym Role = string

definition RoleSystem :: Role where
  "RoleSystem = ''system''"

definition RoleUser :: Role where
  "RoleUser = ''user''"

definition RoleAssistant :: Role where
  "RoleAssistant = ''assistant''"

record Message =
  Role :: Role
  Content :: string

record ChunkChoice =
  Index :: int
  Delta :: Message
  FinishReason :: string

record ResponseChunk =
  ID :: string
  Object :: string
  Created :: int
  Model :: string
  Choices :: "ChunkChoice list"

text \<open>
  The interface \<open>ResponseStream\<close>: the two methods of a stream whose state has type \<open>'s\<close>.
  \<open>Recv\<close> returns a chunk or an error, never both.
\<close>

record 's ResponseStream =
  Recv :: "'s \<Rightarrow> (error + ResponseChunk) \<times> 's"
  Close :: "'s \<Rightarrow> error option \<times> 's"

section \<open>The OpenAI stream (pkg/providers/openai/client.go)\<close>

text \<open>
  The two anonymous structs of \<open>OpenAIStreamResponse\<close> get the names
  \<open>OpenAIStreamDelta\<close> and \<open>OpenAIStreamChoice\<close>.
\<close>

record OpenAIStreamDelta =
  Content :: string
  Role :: string

record OpenAIStreamChoice =
  Index :: int
  Delta :: OpenAIStreamDelta
  FinishReason :: string

record OpenAIStreamResponse =
  ID :: string
  Object :: string
  Created :: int
  Model :: string
  Choices :: "OpenAIStreamChoice list"

text \<open>
  The stream over a response body. \<open>reader\<close> and \<open>rawReader\<close> are the fields of the Go
  struct; \<open>rawReader\<close> holds the state of the body as far as its \<open>Close\<close> method sees it,
  of a type \<open>'c\<close> left open. \<open>unmarshalled\<close> is a ghost field, absent from the Go struct:
  the arguments \<open>json.Unmarshal\<close> has been called with by \<open>Recv\<close>, oldest first.
  What a read of a closed body returns is not followed.
\<close>

record 'c openaiResponseStream =
  reader :: SSEReader
  rawReader :: 'c
  unmarshalled :: "string list"

text \<open>The two messages of \<open>Recv\<close>, as the UTF-8 bytes of the Go string literals.\<close>

definition msg_read_failed :: string where
  "msg_read_failed =
     [CHR 0xE8, CHR 0xAF, CHR 0xBB, CHR 0xE5, CHR 0x8F, CHR 0x96, CHR 0x53, CHR 0x53, CHR 0x45,
      CHR 0xE4, CHR 0xBA, CHR 0x8B, CHR 0xE4, CHR 0xBB, CHR 0xB6, CHR 0xE5, CHR 0xA4, CHR 0xB1,
      CHR 0xE8, CHR 0xB4, CHR 0xA5]"

definition msg_parse_failed :: string where
  "msg_parse_failed =
     [CHR 0xE8, CHR 0xA7, CHR 0xA3, CHR 0xE6, CHR 0x9E, CHR 0x90, CHR 0xE6, CHR 0xB5, CHR 0x81,
      CHR 0xE5, CHR 0xBC, CHR 0x8F, CHR 0xE5, CHR 0x93, CHR 0x8D, CHR 0xE5, CHR 0xBA, CHR 0x94,
      CHR 0xE5, CHR 0xA4, CHR 0xB1, CHR 0xE8, CHR 0xB4, CHR 0xA5]"

text \<open>
  \<open>Recv\<close>. The parameter \<open>unmarshal\<close> stands for \<open>json.Unmarshal\<close> of the standard
  library into a zero \<open>OpenAIStreamResponse\<close>: the error, or the struct filled in.
\<close>

function openaiResponseStream_Recv ::
  "(string \<Rightarrow> error + OpenAIStreamResponse) \<Rightarrow> 'c openaiResponseStream
   \<Rightarrow> (error + ResponseChunk) \<times> 'c openaiResponseStream" where
  "openaiResponseStream_Recv unmarshal s =
     (case ReadEvent (openaiResponseStream.reader s) of
        (Inl err, r') \<Rightarrow>
          if err = io_EOF then (Inl io_EOF, s\<lparr>openaiResponseStream.reader := r'\<rparr>)
          else (Inl (NewError ErrorTypeServer msg_read_failed 0 (Some err)),
                s\<lparr>openaiResponseStream.reader := r'\<rparr>)
      | (Inr ev, r') \<Rightarrow>
          let s1 = s\<lparr>openaiResponseStream.reader := r'\<rparr> in
          if Data ev = [] \<or> Data ev = ''[DONE]'' then
            if Data ev = ''[DONE]'' then (Inl io_EOF, s1)
            else openaiResponseStream_Recv unmarshal s1
          else
            let arg = ParseSSEData (Data ev);
                s2 = s1\<lparr>openaiResponseStream.unmarshalled :=
                          openaiResponseStream.unmarshalled s1 @ [arg]\<rparr>
            in case unmarshal arg of
                 Inl err \<Rightarrow> (Inl (NewError ErrorTypeServer msg_parse_failed 0 (Some err)), s2)
               | Inr streamResp \<Rightarrow>
                   (Inr \<lparr>ResponseChunk.ID = OpenAIStreamResponse.ID streamResp,
                         ResponseChunk.Object = OpenAIStreamResponse.Object streamResp,
                         ResponseChunk.Created = OpenAIStreamResponse.Created streamResp,
                         ResponseChunk.Model = OpenAIStreamResponse.Model streamResp,
                         ResponseChunk.Choices =
                           map (\<lambda>choice.
                                  \<lparr>ChunkChoice.Index = OpenAIStreamChoice.Index choice,
                                   ChunkChoice.Delta =
                                     \<lparr>Message.Role = OpenAIStreamDelta.Role (OpenAIStreamChoice.Delta choice),
                                      Message.Content = OpenAIStreamDelta.Content (OpenAIStreamChoice.Delta choice)\<rparr>,
                                   ChunkChoice.FinishReason = OpenAIStreamChoice.FinishReason choice\<rparr>)
                               (OpenAIStreamResponse.Choices streamResp)\<rparr>,
                    s2))"
  by pat_completeness auto

termination openaiResponseStream_Recv
  by (relation "measure (\<lambda>(unmarshal, s). unread (openaiResponseStream.reader s))")
     (auto dest: ReadEvent_unread [OF sym])

declare openaiResponseStream_Recv.simps [simp del]

text \<open>\<open>Close\<close>; \<open>closeBody\<close> stands for the \<open>Close\<close> method of the body in \<open>rawReader\<close>.\<close>

definition openaiResponseStream_Close ::
  "('c \<Rightarrow> error option \<times> 'c) \<Rightarrow> 'c openaiResponseStream \<Rightarrow> error option \<times> 'c openaiResponseStream" where
  "openaiResponseStream_Close closeBody s =
     (case closeBody (openaiResponseStream.rawReader s) of
        (err, c') \<Rightarrow> (err, s\<lparr>openaiResponseStream.rawReader := c'\<rparr>))"

section \<open>The DeepSeek stream (pkg/providers/deepseek/client.go)\<close>

text \<open>
  The struct \<open>DeepSeekStreamResponse\<close> and the methods of \<open>deepseekResponseStream\<close> are
  the OpenAI ones under other names; they are written out again as the source does.
\<close>

record DeepSeekStreamDelta =
  Content :: string
  Role :: string

record DeepSeekStreamChoice =
  Index :: int
  Delta :: DeepSeekStreamDelta
  FinishReason :: string

record DeepSeekStreamResponse =
  ID :: string
  Object :: string
  Created :: int
  Model :: string
  Choices :: "DeepSeekStreamChoice list"

record 'c deepseekResponseStream =
  reader :: SSEReader
  rawReader :: 'c
  unmarshalled :: "string list"

function deepseekResponseStream_Recv ::
  "(string \<Rightarrow> error + DeepSeekStreamResponse) \<Rightarrow> 'c deepseekResponseStream
   \<Rightarrow> (error + ResponseChunk) \<times> 'c deepseekResponseStream" where
  "deepseekResponseStream_Recv unmarshal s =
     (case ReadEvent (deepseekResponseStream.reader s) of
        (Inl err, r') \<Rightarrow>
          if err = io_EOF then (Inl io_EOF, s\<lparr>deepseekResponseStream.reader := r'\<rparr>)
          else (Inl (NewError ErrorTypeServer msg_read_failed 0 (Some err)),
                s\<lparr>deepseekResponseStream.reader := r'\<rparr>)
      | (Inr ev, r') \<Rightarrow>
          let s1 = s\<lparr>deepseekResponseStream.reader := r'\<rparr> in
          if Data ev = [] \<or> Data ev = ''[DONE]'' then
            if Data ev = ''[DONE]'' then (Inl io_EOF, s1)
            else deepseekResponseStream_Recv unmarshal s1
          else
            let arg = ParseSSEData (Data ev);
                s2 = s1\<lparr>deepseekResponseStream.unmarshalled :=
                          deepseekResponseStream.unmarshalled s1 @ [arg]\<rparr>
            in case unmarshal arg of
                 Inl err \<Rightarrow> (Inl (NewError ErrorTypeServer msg_parse_failed 0 (Some err)), s2)
               | Inr streamResp \<Rightarrow>
                   (Inr \<lparr>ResponseChunk.ID = DeepSeekStreamResponse.ID streamResp,
                         ResponseChunk.Object = DeepSeekStreamResponse.Object streamResp,
                         ResponseChunk.Created = DeepSeekStreamResponse.Created streamResp,
                         ResponseChunk.Model = DeepSeekStreamResponse.Model streamResp,
                         ResponseChunk.Choices =
                           map (\<lambda>choice.
                                  \<lparr>ChunkChoice.Index = DeepSeekStreamChoice.Index choice,
                                   ChunkChoice.Delta =
                                     \<lparr>Message.Role = DeepSeekStreamDelta.Role (DeepSeekStreamChoice.Delta choice),
                                      Message.Content = DeepSeekStreamDelta.Content (DeepSeekStreamChoice.Delta choice)\<rparr>,
                                   ChunkChoice.FinishReason = DeepSeekStreamChoice.FinishReason choice\<rparr>)
                               (DeepSeekStreamResponse.Choices streamResp)\<rparr>,
                    s2))"
  by pat_completeness auto

termination deepseekResponseStream_Recv
  by (relation "measure (\<lambda>(unmarshal, s). unread (deepseekResponseStream.reader s))")
     (auto dest: ReadEvent_unread [OF sym])

declare deepseekResponseStream_Recv.simps [simp del]

text \<open>\<open>Close\<close>; \<open>closeBody\<close> stands for the \<open>Close\<close> method of the body in \<open>rawReader\<close>.\<close>

definition deepseekResponseStream_Close ::
  "('c \<Rightarrow> error option \<times> 'c) \<Rightarrow> 'c deepseekResponseStream \<Rightarrow> error option \<times> 'c deepseekResponseStream" where
  "deepseekResponseStream_Close closeBody s =
     (case closeBody (deepseekResponseStream.rawReader s) of
        (err, c') \<Rightarrow> (err, s\<lparr>deepseekResponseStream.rawReader := c'\<rparr>))"

section \<open>The Anthropic stream (pkg/providers/anthropic/client.go)\<close>

record AnthropicContentBlock =
  Type :: string
  Text :: string

record AnthropicContentDelta =
  Type :: string
  Text :: string

text \<open>The anonymous struct of the field \<open>Usage\<close> gets the name \<open>AnthropicStreamUsage\<close>.\<close>

record AnthropicStreamUsage =
  InputTokens :: int
  OutputTokens :: int

record AnthropicStreamMessage =
  ID :: string
  Type :: string
  Role :: string
  Content :: "AnthropicContentBlock list"
  Model :: string
  StopReason :: string
  StopSequence :: string
  Usage :: AnthropicStreamUsage

text \<open>The two pointer fields are options: \<open>None\<close> is the nil pointer.\<close>

record AnthropicStreamResponse =
  Type :: string
  Message :: AnthropicStreamMessage
  ContentBlock :: "AnthropicContentBlock option"
  Delta :: "AnthropicContentDelta option"
  Index :: int

record 'c anthropicResponseStream =
  reader :: SSEReader
  rawReader :: 'c
  unmarshalled :: "string list"

text \<open>
  \<open>Recv\<close>. \<open>now\<close> is what \<open>time.Now().Unix()\<close> returns during the call; a call reads the
  clock at most once, when it builds its chunk.
\<close>

function anthropicResponseStream_Recv ::
  "(string \<Rightarrow> error + AnthropicStreamResponse) \<Rightarrow> int \<Rightarrow> 'c anthropicResponseStream
   \<Rightarrow> (error + ResponseChunk) \<times> 'c anthropicResponseStream" where
  "anthropicResponseStream_Recv unmarshal now s =
     (case ReadEvent (anthropicResponseStream.reader s) of
        (Inl err, r') \<Rightarrow>
          if err = io_EOF then (Inl io_EOF, s\<lparr>anthropicResponseStream.reader := r'\<rparr>)
          else (Inl (NewError ErrorTypeServer msg_read_failed 0 (Some err)),
                s\<lparr>anthropicResponseStream.reader := r'\<rparr>)
      | (Inr ev, r') \<Rightarrow>
          let s1 = s\<lparr>anthropicResponseStream.reader := r'\<rparr> in
          if Data ev = [] then anthropicResponseStream_Recv unmarshal now s1
          else
            let arg = ParseSSEData (Data ev);
                s2 = s1\<lparr>anthropicResponseStream.unmarshalled :=
                          anthropicResponseStream.unmarshalled s1 @ [arg]\<rparr>
            in case unmarshal arg of
                 Inl err \<Rightarrow> (Inl (NewError ErrorTypeServer msg_parse_failed 0 (Some err)), s2)
               | Inr streamResp \<Rightarrow>
                   if AnthropicStreamResponse.Type streamResp = ''message_stop'' then (Inl io_EOF, s2)
                   else if AnthropicStreamResponse.Type streamResp = ''content_block_delta'' then
                     (case AnthropicStreamResponse.Delta streamResp of
                        None \<Rightarrow> anthropicResponseStream_Recv unmarshal now s2
                      | Some delta \<Rightarrow>
                          if AnthropicContentDelta.Type delta \<noteq> ''text''
                          then anthropicResponseStream_Recv unmarshal now s2
                          else
                            (Inr \<lparr>ResponseChunk.ID = [],
                                  ResponseChunk.Object = ''chat.completion.chunk'',
                                  ResponseChunk.Created = now,
                                  ResponseChunk.Model = [],
                                  ResponseChunk.Choices =
                                    [\<lparr>ChunkChoice.Index = AnthropicStreamResponse.Index streamResp,
                                      ChunkChoice.Delta =
                                        \<lparr>Message.Role = RoleAssistant,
                                         Message.Content = AnthropicContentDelta.Text delta\<rparr>,
                                      ChunkChoice.FinishReason = []\<rparr>]\<rparr>,
                             s2))
                   else if AnthropicStreamResponse.Type streamResp = ''content_block_start'' then
                     (case AnthropicStreamResponse.ContentBlock streamResp of
                        None \<Rightarrow> anthropicResponseStream_Recv unmarshal now s2
                      | Some block \<Rightarrow>
                          if AnthropicContentBlock.Type block \<noteq> ''text''
                          then anthropicResponseStream_Recv unmarshal now s2
                          else anthropicResponseStream_Recv unmarshal now s2)
                   else if AnthropicStreamResponse.Type streamResp = ''message_start'' then
                     anthropicResponseStream_Recv unmarshal now s2
                   else if AnthropicStreamResponse.Type streamResp = ''message_delta'' then
                     if AnthropicStreamMessage.StopReason (AnthropicStreamResponse.Message streamResp) \<noteq> []
                     then (Inl io_EOF, s2)
                     else anthropicResponseStream_Recv unmarshal now s2
                   else anthropicResponseStream_Recv unmarshal now s2)"
  by pat_completeness auto

termination anthropicResponseStream_Recv
  by (relation "measure (\<lambda>(unmarshal, now, s). unread (anthropicResponseStream.reader s))")
     (auto dest: ReadEvent_unread [OF sym])

declare anthropicResponseStream_Recv.simps [simp del]

definition anthropicResponseStream_Close ::
  "('c \<Rightarrow> error option \<times> 'c) \<Rightarrow> 'c anthropicResponseStream
   \<Rightarrow> error option \<times> 'c anthropicResponseStream" where
  "anthropicResponseStream_Close closeBody s =
     (case closeBody (anthropicResponseStream.rawReader s) of
        (err, c') \<Rightarrow> (err, s\<lparr>anthropicResponseStream.rawReader := c'\<rparr>))"

section \<open>The Gemini stream (pkg/providers/gemini/client.go)\<close>

text \<open>
  The anonymous structs of \<open>GeminiStreamResponse\<close> get the names below.
\<close>

record GeminiStreamPart =
  Text :: string

record GeminiStreamContent =
  Parts :: "GeminiStreamPart list"
  Role :: string

record GeminiSafetyRating =
  Category :: string
  Probability :: string

record GeminiStreamCandidate =
  Content :: GeminiStreamContent
  FinishReason :: string
  Index :: int
  SafetyRatings :: "GeminiSafetyRating list"

record GeminiUsageMetadata =
  PromptTokenCount :: int
  CandidatesTokenCount :: int
  TotalTokenCount :: int

record GeminiStreamResponse =
  Candidates :: "GeminiStreamCandidate list"
  UsageMetadata :: GeminiUsageMetadata

text \<open>\<open>chunkID\<close> is a Go \<open>int\<close>, 64 bits wide and signed: \<open>chunkID++\<close> wraps.\<close>

record 'c geminiResponseStream =
  reader :: SSEReader
  rawReader :: 'c
  model :: string
  chunkID :: "64 word"
  unmarshalled :: "string list"

text \<open>The verb \<open>%d\<close> of \<open>fmt.Sprintf\<close>: a signed integer in decimal.\<close>

function decimal :: "nat \<Rightarrow> string" where
  "decimal n =
     (if n < 10 then [char_of (48 + n)]
      else decimal (n div 10) @ [char_of (48 + n mod 10)])"
  by pat_completeness auto

termination decimal
  by (relation "measure (\<lambda>n. n)") auto

declare decimal.simps [simp del]

definition Sprintf_d :: "int \<Rightarrow> string" where
  "Sprintf_d i = (if i < 0 then CHR ''-'' # decimal (nat (- i)) else decimal (nat i))"

text \<open>
  The body of the loop \<open>for _, candidate := range streamResp.Candidates\<close> of \<open>Recv\<close>,
  from the choices collected so far to the choices after this candidate.
\<close>

definition candidateChoice :: "ChunkChoice list \<Rightarrow> GeminiStreamCandidate \<Rightarrow> ChunkChoice list" where
  "candidateChoice choices candidate =
     (if GeminiStreamCandidate.FinishReason candidate \<noteq> [] then
        choices @
          [\<lparr>ChunkChoice.Index = GeminiStreamCandidate.Index candidate,
            ChunkChoice.Delta = \<lparr>Message.Role = RoleAssistant, Message.Content = []\<rparr>,
            ChunkChoice.FinishReason = GeminiStreamCandidate.FinishReason candidate\<rparr>]
      else
        let content = foldl (\<lambda>content part. content @ GeminiStreamPart.Text part) []
                        (GeminiStreamContent.Parts (GeminiStreamCandidate.Content candidate))
        in if content \<noteq> [] then
             choices @
               [\<lparr>ChunkChoice.Index = GeminiStreamCandidate.Index candidate,
                 ChunkChoice.Delta = \<lparr>Message.Role = RoleAssistant, Message.Content = content\<rparr>,
                 ChunkChoice.FinishReason = []\<rparr>]
           else choices)"

function geminiResponseStream_Recv ::
  "(string \<Rightarrow> error + GeminiStreamResponse) \<Rightarrow> int \<Rightarrow> 'c geminiResponseStream
   \<Rightarrow> (error + ResponseChunk) \<times> 'c geminiResponseStream" where
  "geminiResponseStream_Recv unmarshal now s =
     (case ReadEvent (geminiResponseStream.reader s) of
        (Inl err, r') \<Rightarrow>
          if err = io_EOF then (Inl io_EOF, s\<lparr>geminiResponseStream.reader := r'\<rparr>)
          else (Inl (NewError ErrorTypeServer msg_read_failed 0 (Some err)),
                s\<lparr>geminiResponseStream.reader := r'\<rparr>)
      | (Inr ev, r') \<Rightarrow>
          let s1 = s\<lparr>geminiResponseStream.reader := r'\<rparr> in
          if Data ev = [] then geminiResponseStream_Recv unmarshal now s1
          else
            let arg = ParseSSEData (Data ev);
                s2 = s1\<lparr>geminiResponseStream.unmarshalled :=
                          geminiResponseStream.unmarshalled s1 @ [arg]\<rparr>
            in case unmarshal arg of
                 Inl err \<Rightarrow> (Inl (NewError ErrorTypeServer msg_parse_failed 0 (Some err)), s2)
               | Inr streamResp \<Rightarrow>
                   if length (Candidates streamResp) = 0 then geminiResponseStream_Recv unmarshal now s2
                   else
                     let choices = foldl candidateChoice [] (Candidates streamResp) in
                     if length choices = 0 then geminiResponseStream_Recv unmarshal now s2
                     else
                       let s3 = s2\<lparr>chunkID := chunkID s2 + 1\<rparr> in
                       (Inr \<lparr>ResponseChunk.ID = ''chunk-'' @ Sprintf_d (sint (chunkID s3)),
                             ResponseChunk.Object = ''chat.completion.chunk'',
                             ResponseChunk.Created = now,
                             ResponseChunk.Model = model s3,
                             ResponseChunk.Choices = choices\<rparr>,
                        s3))"
  by pat_completeness auto

termination geminiResponseStream_Recv
  by (relation "measure (\<lambda>(unmarshal, now, s). unread (geminiResponseStream.reader s))")
     (auto dest: ReadEvent_unread [OF sym])

declare geminiResponseStream_Recv.simps [simp del]

definition geminiResponseStream_Close ::
  "('c \<Rightarrow> error option \<times> 'c) \<Rightarrow> 'c geminiResponseStream
   \<Rightarrow> error option \<times> 'c geminiResponseStream" where
  "geminiResponseStream_Close closeBody s =
     (case closeBody (geminiResponseStream.rawReader s) of
        (err, c') \<Rightarrow> (err, s\<lparr>geminiResponseStream.rawReader := c'\<rparr>))"

section \<open>The stream processor (pkg/api/streaming.go)\<close>

text \<open>
  The callbacks are Go closures: they may change the variables they close over and
  answer from them. \<open>'u\<close> is the type of that environment; a callback takes it and
  returns it changed. A callback that is nil is \<open>None\<close>.
\<close>

type_synonym 'u StreamHandler = "ResponseChunk \<Rightarrow> 'u \<Rightarrow> error option \<times> 'u"

record 'u StreamOptions =
  OnChunk :: "'u StreamHandler option"
  OnComplete :: "(error option \<Rightarrow> 'u \<Rightarrow> 'u) option"
  OnText :: "(string \<Rightarrow> 'u \<Rightarrow> error option \<times> 'u) option"
  AutoClose :: bool

definition DefaultStreamOptions :: "'u StreamOptions" where
  "DefaultStreamOptions = \<lparr>OnChunk = None, OnComplete = None, OnText = None, AutoClose = True\<rparr>"

text \<open>
  What \<open>Process\<close> does to the outside, in order: a ghost log, absent from the Go code.
  Each entry is one call with what it returned (or, for \<open>OnComplete\<close>, was given).
\<close>

datatype action =
    Recv_returned "error + ResponseChunk"
  | OnChunk_called ResponseChunk "error option"
  | OnText_called string "error option"
  | OnComplete_called "error option"
  | Close_called "error option"

text \<open>The statement \<open>if options.OnComplete != nil { options.OnComplete(err) }\<close>.\<close>

definition callOnComplete ::
  "'u StreamOptions \<Rightarrow> error option \<Rightarrow> 'u \<times> action list \<Rightarrow> 'u \<times> action list" where
  "callOnComplete options err = (\<lambda>(u, log).
     case OnComplete options of
       None \<Rightarrow> (u, log)
     | Some f \<Rightarrow> (f err u, log @ [OnComplete_called err]))"

text \<open>
  The block \<open>if options.OnChunk != nil { ... }\<close> up to the test of the callback's error:
  the error of the callback, nil when it was not called.
\<close>

definition callOnChunk ::
  "'u StreamOptions \<Rightarrow> ResponseChunk \<Rightarrow> 'u \<times> action list \<Rightarrow> error option \<times> 'u \<times> action list" where
  "callOnChunk options chunk = (\<lambda>(u, log).
     case OnChunk options of
       None \<Rightarrow> (None, u, log)
     | Some h \<Rightarrow> (case h chunk u of (err, u') \<Rightarrow> (err, u', log @ [OnChunk_called chunk err])))"

text \<open>The block \<open>if options.OnText != nil && len(chunk.Choices) > 0 { ... }\<close> likewise.\<close>

definition callOnText ::
  "'u StreamOptions \<Rightarrow> ResponseChunk \<Rightarrow> 'u \<times> action list \<Rightarrow> error option \<times> 'u \<times> action list" where
  "callOnText options chunk = (\<lambda>(u, log).
     case OnText options of
       None \<Rightarrow> (None, u, log)
     | Some h \<Rightarrow>
         if length (ResponseChunk.Choices chunk) > 0 then
           let content = Message.Content (ChunkChoice.Delta (ResponseChunk.Choices chunk ! 0)) in
           if content \<noteq> [] then
             (case h content u of (err, u') \<Rightarrow> (err, u', log @ [OnText_called content err]))
           else (None, u, log)
         else (None, u, log))"

text \<open>
  The \<open>for\<close> loop of \<open>Process\<close>. A stream may give chunks for ever, so the loop is a
  partial function: \<open>None\<close> is the loop that never returns, \<open>Some\<close> holds the error
  returned (\<open>None\<close> for nil), the stream, the environment of the callbacks and the log.
\<close>

partial_function (option) Process_loop ::
  "'s ResponseStream \<Rightarrow> 'u StreamOptions \<Rightarrow> 's \<Rightarrow> 'u \<Rightarrow> action list
   \<Rightarrow> (error option \<times> 's \<times> 'u \<times> action list) option" where
  "Process_loop stream options s u log =
     (case Recv stream s of
        (Inl err, s1) \<Rightarrow>
          if err = io_EOF then
            (case callOnComplete options None (u, log @ [Recv_returned (Inl err)]) of
               (u1, log1) \<Rightarrow> Some (None, s1, u1, log1))
          else
            (case callOnComplete options (Some err) (u, log @ [Recv_returned (Inl err)]) of
               (u1, log1) \<Rightarrow> Some (Some err, s1, u1, log1))
      | (Inr chunk, s1) \<Rightarrow>
          (case callOnChunk options chunk (u, log @ [Recv_returned (Inr chunk)]) of
             (Some err, u1, log1) \<Rightarrow>
               (case callOnComplete options (Some err) (u1, log1) of
                  (u2, log2) \<Rightarrow> Some (Some err, s1, u2, log2))
           | (None, u1, log1) \<Rightarrow>
               (case callOnText options chunk (u1, log1) of
                  (Some err, u2, log2) \<Rightarrow>
                    (case callOnComplete options (Some err) (u2, log2) of
                       (u3, log3) \<Rightarrow> Some (Some err, s1, u3, log3))
                | (None, u2, log2) \<Rightarrow> Process_loop stream options s1 u2 log2)))"

text \<open>
  \<open>Process\<close>: the default options for nil, the loop, and the deferred function, which
  closes the stream after the loop has returned and drops the error of \<open>Close\<close>.
\<close>

definition Process ::
  "'s ResponseStream \<Rightarrow> 'u StreamOptions option \<Rightarrow> 's \<Rightarrow> 'u
   \<Rightarrow> (error option \<times> 's \<times> 'u \<times> action list) option" where
  "Process stream options s u =
     (let options = (case options of None \<Rightarrow> DefaultStreamOptions | Some opts \<Rightarrow> opts) in
      case Process_loop stream options s u [] of
        None \<Rightarrow> None
      | Some (err, s1, u1, log1) \<Rightarrow>
          if AutoClose options then
            (case Close stream s1 of (cerr, s2) \<Rightarrow> Some (err, s2, u1, log1 @ [Close_called cerr]))
          else Some (err, s1, u1, log1))"

definition ProcessWithHandler ::
  "'s ResponseStream \<Rightarrow> (string \<Rightarrow> 'u \<Rightarrow> error option \<times> 'u) \<Rightarrow> 's \<Rightarrow> 'u
   \<Rightarrow> (error option \<times> 's \<times> 'u \<times> action list) option" where
  "ProcessWithHandler stream handler s u =
     Process stream (Some \<lparr>OnChunk = None, OnComplete = None, OnText = Some handler, AutoClose = True\<rparr>) s u"

text \<open>\<open>CollectFullContent\<close>: the environment of its handler is the variable \<open>fullContent\<close>.\<close>

definition CollectFullContent ::
  "'s ResponseStream \<Rightarrow> 's \<Rightarrow> ((string \<times> error option) \<times> 's) option" where
  "CollectFullContent stream s =
     (case ProcessWithHandler stream (\<lambda>text fullContent. (None, fullContent @ text)) s [] of
        None \<Rightarrow> None
      | Some (err, s', fullContent, log) \<Rightarrow> Some ((fullContent, err), s'))"

text \<open>The two backends without a clock behind the interface.\<close>

definition openaiStream ::
  "(string \<Rightarrow> error + OpenAIStreamResponse) \<Rightarrow> ('c \<Rightarrow> error option \<times> 'c)
   \<Rightarrow> 'c openaiResponseStream ResponseStream" where
  "openaiStream unmarshal closeBody =
     \<lparr>Recv = openaiResponseStream_Recv unmarshal, Close = openaiResponseStream_Close closeBody\<rparr>"

definition deepseekStream ::
  "(string \<Rightarrow> error + DeepSeekStreamResponse) \<Rightarrow> ('c \<Rightarrow> error option \<times> 'c)
   \<Rightarrow> 'c deepseekResponseStream ResponseStream" where
  "deepseekStream unmarshal closeBody =
     \<lparr>Recv = deepseekResponseStream_Recv unmarshal, Close = deepseekResponseStream_Close closeBody\<rparr>"

section \<open>Example inputs\<close>

text \<open>
  A response body that carries the given payloads, one event of a single \<open>data:\<close> line
  each, and then ends with \<open>fin\<close>.
\<close>

definition body_of :: "string list \<Rightarrow> error \<Rightarrow> Reader" where
  "body_of payloads fin =
     \<lparr>pending = concat (map (\<lambda>d. ''data: '' @ d @ [NL, NL]) payloads), final = fin\<rparr>"

text \<open>The zero value of \<open>AnthropicStreamResponse\<close>, as \<open>var streamResp\<close> declares it.\<close>

definition AnthropicStreamResponse_zero :: AnthropicStreamResponse where
  "AnthropicStreamResponse_zero =
     \<lparr>AnthropicStreamResponse.Type = [],
      AnthropicStreamResponse.Message =
        \<lparr>AnthropicStreamMessage.ID = [], AnthropicStreamMessage.Type = [],
         AnthropicStreamMessage.Role = [], AnthropicStreamMessage.Content = [],
         AnthropicStreamMessage.Model = [], StopReason = [], StopSequence = [],
         Usage = \<lparr>InputTokens = 0, OutputTokens = 0\<rparr>\<rparr>,
      ContentBlock = None,
      AnthropicStreamResponse.Delta = None,
      AnthropicStreamResponse.Index = 0\<rparr>"

text \<open>
  Decoders for the examples: what \<open>json.Unmarshal\<close> gives on the payloads the examples
  use, and an error on any other text.
\<close>

definition example_openai_unmarshal :: "string \<Rightarrow> error + OpenAIStreamResponse" where
  \<open>example_openai_unmarshal d =
     (if d = ''{"choices":[{"index":0,"delta":{"content":"Hel"}}]}'' then
        Inr \<lparr>OpenAIStreamResponse.ID = [], OpenAIStreamResponse.Object = [],
             OpenAIStreamResponse.Created = 0, OpenAIStreamResponse.Model = [],
             OpenAIStreamResponse.Choices =
               [\<lparr>OpenAIStreamChoice.Index = 0,
                 OpenAIStreamChoice.Delta =
                   \<lparr>OpenAIStreamDelta.Content = ''Hel'', OpenAIStreamDelta.Role = []\<rparr>,
                 OpenAIStreamChoice.FinishReason = []\<rparr>]\<rparr>
      else if d = ''{"choices":[{"index":0,"delta":{"content":"lo"}}]}'' then
        Inr \<lparr>OpenAIStreamResponse.ID = [], OpenAIStreamResponse.Object = [],
             OpenAIStreamResponse.Created = 0, OpenAIStreamResponse.Model = [],
             OpenAIStreamResponse.Choices =
               [\<lparr>OpenAIStreamChoice.Index = 0,
                 OpenAIStreamChoice.Delta =
                   \<lparr>OpenAIStreamDelta.Content = ''lo'', OpenAIStreamDelta.Role = []\<rparr>,
                 OpenAIStreamChoice.FinishReason = []\<rparr>]\<rparr>
      else Inl (LibError ''invalid character''))\<close>

definition example_deepseek_unmarshal :: "string \<Rightarrow> error + DeepSeekStreamResponse" where
  \<open>example_deepseek_unmarshal d =
     (if d = ''{"choices":[{"index":0,"delta":{"content":"Hel"}}]}'' then
        Inr \<lparr>DeepSeekStreamResponse.ID = [], DeepSeekStreamResponse.Object = [],
             DeepSeekStreamResponse.Created = 0, DeepSeekStreamResponse.Model = [],
             DeepSeekStreamResponse.Choices =
               [\<lparr>DeepSeekStreamChoice.Index = 0,
                 DeepSeekStreamChoice.Delta =
                   \<lparr>DeepSeekStreamDelta.Content = ''Hel'', DeepSeekStreamDelta.Role = []\<rparr>,
                 DeepSeekStreamChoice.FinishReason = []\<rparr>]\<rparr>
      else Inl (LibError ''invalid character''))\<close>

definition example_anthropic_unmarshal :: "string \<Rightarrow> error + AnthropicStreamResponse" where
  \<open>example_anthropic_unmarshal d =
     (if d = ''{"type":"message_start"}'' then
        Inr (AnthropicStreamResponse_zero\<lparr>AnthropicStreamResponse.Type := ''message_start''\<rparr>)
      else if d = ''{"type":"content_block_delta","delta":{"type":"text","text":"a"}}'' then
        Inr (AnthropicStreamResponse_zero
              \<lparr>AnthropicStreamResponse.Type := ''content_block_delta'',
               AnthropicStreamResponse.Delta :=
                 Some \<lparr>AnthropicContentDelta.Type = ''text'', AnthropicContentDelta.Text = ''a''\<rparr>\<rparr>)
      else if d = ''{"type":"content_block_delta","delta":{"type":"text","text":"b"}}'' then
        Inr (AnthropicStreamResponse_zero
              \<lparr>AnthropicStreamResponse.Type := ''content_block_delta'',
               AnthropicStreamResponse.Delta :=
                 Some \<lparr>AnthropicContentDelta.Type = ''text'', AnthropicContentDelta.Text = ''b''\<rparr>\<rparr>)
      else if d = ''{"type":"message_stop"}'' then
        Inr (AnthropicStreamResponse_zero\<lparr>AnthropicStreamResponse.Type := ''message_stop''\<rparr>)
      else if d = ''{"type":"message_delta"}'' then
        Inr (AnthropicStreamResponse_zero\<lparr>AnthropicStreamResponse.Type := ''message_delta''\<rparr>)
      else if d = ''{"type":"message_delta","message":{"stop_reason":"end_turn"}}'' then
        Inr (AnthropicStreamResponse_zero
              \<lparr>AnthropicStreamResponse.Type := ''message_delta'',
               AnthropicStreamResponse.Message :=
                 (AnthropicStreamResponse.Message AnthropicStreamResponse_zero)
                   \<lparr>StopReason := ''end_turn''\<rparr>\<rparr>)
      else Inl (LibError ''invalid character''))\<close>

definition example_gemini_unmarshal :: "string \<Rightarrow> error + GeminiStreamResponse" where
  \<open>example_gemini_unmarshal d =
     (if d = ''{"candidates":[]}'' then
        Inr \<lparr>Candidates = [],
             UsageMetadata = \<lparr>PromptTokenCount = 0, CandidatesTokenCount = 0, TotalTokenCount = 0\<rparr>\<rparr>
      else if d = ''{"candidates":[{"content":{"parts":[{"text":"Hel"},{"text":"lo"}]}}]}'' then
        Inr \<lparr>Candidates =
               [\<lparr>GeminiStreamCandidate.Content =
                   \<lparr>Parts = [\<lparr>GeminiStreamPart.Text = ''Hel''\<rparr>, \<lparr>GeminiStreamPart.Text = ''lo''\<rparr>],
                    GeminiStreamContent.Role = []\<rparr>,
                 GeminiStreamCandidate.FinishReason = [],
                 GeminiStreamCandidate.Index = 0,
                 SafetyRatings = []\<rparr>],
             UsageMetadata = \<lparr>PromptTokenCount = 0, CandidatesTokenCount = 0, TotalTokenCount = 0\<rparr>\<rparr>
      else Inl (LibError ''invalid character''))\<close>

text \<open>A body whose \<open>Close\<close> fails from the second call on, as that of an \<open>os.File\<close> does.\<close>

definition closeOnce :: "bool \<Rightarrow> error option \<times> bool" where
  "closeOnce closed = (if closed then Some (LibError ''file already closed'') else None, True)"

section \<open>The event reader on single events\<close>

lemma Split_append_sep: "sep \<notin> set s \<Longrightarrow> Split sep (s @ sep # t) = s # Split sep t"
  by (induction s) auto

lemma takeWhile_upto: "x \<notin> set l \<Longrightarrow> takeWhile (\<lambda>c. c \<noteq> x) (l @ x # r) = l"
  by (induction l) auto

lemma dropWhile_upto: "x \<notin> set l \<Longrightarrow> dropWhile (\<lambda>c. c \<noteq> x) (l @ x # r) = x # r"
  by (induction l) auto

lemma ReadBytes_line:
  "NL \<notin> set l \<Longrightarrow>
   ReadBytes \<lparr>pending = l @ NL # rest, final = fin\<rparr>
     = ((l @ [NL], None), \<lparr>pending = rest, final = fin\<rparr>)"
  by (simp add: ReadBytes_def takeWhile_upto dropWhile_upto)

lemma ReadBytes_end:
  "NL \<notin> set l \<Longrightarrow>
   ReadBytes \<lparr>pending = l, final = fin\<rparr> = ((l, Some fin), \<lparr>pending = [], final = fin\<rparr>)"
  by (simp add: ReadBytes_def)

lemma processLine_data:
  "processLine ev (''data: '' @ v) =
     ev\<lparr>Data := (if Data ev \<noteq> [] then Data ev @ [NL] else Data ev) @ v\<rparr>"
  by (simp add: processLine_def SplitN2_def)

lemma processLine_empty: "processLine ev [] = ev"
  by (simp add: processLine_def)

lemma suffix_NL_NL: "suffix [NL, NL] (xs @ [c, NL]) \<longleftrightarrow> c = NL"
  by (auto simp add: suffix_to_prefix)

text \<open>One round of the loop on a line that does not end the event.\<close>

lemma ReadEvent_loop_line:
  assumes "NL \<notin> set l" and "\<not> suffix [NL, NL] (b @ l @ [NL])"
  shows "ReadEvent_loop \<lparr>bufReader = \<lparr>pending = l @ NL # rest, final = fin\<rparr>,
            delimiter = [NL, NL], event = e, buffer = b\<rparr>
         = ReadEvent_loop \<lparr>bufReader = \<lparr>pending = rest, final = fin\<rparr>,
            delimiter = [NL, NL], event = e, buffer = b @ l @ [NL]\<rparr>"
proof -
  have "l = [] \<Longrightarrow> \<not> (Suc 0 < length (b @ [NL]) \<and> (b @ [NL]) ! (length b - Suc 0) = NL)"
    using assms(2) by (cases b rule: rev_cases) (auto simp: nth_append suffix_NL_NL)
  then show ?thesis
    using assms
    by (subst ReadEvent_loop.simps) (auto simp: ReadBytes_line Let_def)
qed

text \<open>One round on the blank line that ends the event.\<close>

lemma ReadEvent_loop_blank:
  assumes "suffix [NL, NL] (b @ [NL])"
  shows "ReadEvent_loop \<lparr>bufReader = \<lparr>pending = NL # rest, final = fin\<rparr>,
            delimiter = [NL, NL], event = e, buffer = b\<rparr>
         = (let ev = processBuffer \<lparr>bufReader = \<lparr>pending = rest, final = fin\<rparr>,
                       delimiter = [NL, NL], event = e, buffer = b @ [NL]\<rparr>;
                r2 = \<lparr>bufReader = \<lparr>pending = rest, final = fin\<rparr>,
                       delimiter = [NL, NL], event = e, buffer = []\<rparr>
            in if Data ev \<noteq> [] \<or> Event ev \<noteq> [] then (Inr ev, r2) else ReadEvent_loop r2)"
  using assms ReadBytes_line [of "[]" rest fin]
  by (subst ReadEvent_loop.simps) (simp add: Let_def)

text \<open>The round that finds the source at its end, with nothing left in the buffer.\<close>

lemma ReadEvent_loop_end:
  assumes "NL \<notin> set l" and "b = [] \<or> b = [NL]"
  shows "ReadEvent_loop \<lparr>bufReader = \<lparr>pending = l, final = fin\<rparr>,
            delimiter = d, event = e, buffer = b\<rparr>
         = (Inl fin, \<lparr>bufReader = \<lparr>pending = [], final = fin\<rparr>,
            delimiter = d, event = e, buffer = b\<rparr>)"
  using assms
  by (subst ReadEvent_loop.simps) (auto simp: ReadBytes_end Let_def)

text \<open>One event of a single \<open>data:\<close> line, with more input after it.\<close>

lemma ReadEvent_data_event:
  assumes "NL \<notin> set payload" and "payload \<noteq> []"
  shows "ReadEvent (NewSSEReader \<lparr>pending = ''data: '' @ payload @ [NL, NL] @ rest, final = fin\<rparr>)
         = (Inr (SSEEvent_zero\<lparr>Data := payload\<rparr>), NewSSEReader \<lparr>pending = rest, final = fin\<rparr>)"
proof -
  have nl: "NL \<notin> set (''data: '' @ payload)"
    using assms by simp
  have pl: "payload = butlast payload @ [last payload]" and last: "last payload \<noteq> NL"
    using assms by (simp, metis last_in_set)
  have nosuf: "\<not> suffix [NL, NL] ([] @ (''data: '' @ payload) @ [NL])"
    using suffix_NL_NL [of "''data: '' @ butlast payload" "last payload"] last pl
    by (metis append.assoc append_Cons append_Nil)
  have sp: "Split NL ((''data: '' @ payload @ [NL]) @ [NL]) = [''data: '' @ payload, [], []]"
    using Split_append_sep [OF nl, of "[NL]"] by simp
  have "ReadEvent (NewSSEReader \<lparr>pending = ''data: '' @ payload @ [NL, NL] @ rest, final = fin\<rparr>)
      = ReadEvent_loop \<lparr>bufReader = \<lparr>pending = (''data: '' @ payload) @ NL # (NL # rest), final = fin\<rparr>,
            delimiter = [NL, NL], event = SSEEvent_zero, buffer = []\<rparr>"
    by (simp add: ReadEvent_def NewSSEReader_def)
  also have "\<dots> = ReadEvent_loop \<lparr>bufReader = \<lparr>pending = NL # rest, final = fin\<rparr>,
            delimiter = [NL, NL], event = SSEEvent_zero, buffer = ''data: '' @ payload @ [NL]\<rparr>"
    using ReadEvent_loop_line [OF nl nosuf] by simp
  also have "\<dots> = (Inr (SSEEvent_zero\<lparr>Data := payload\<rparr>), NewSSEReader \<lparr>pending = rest, final = fin\<rparr>)"
    apply (subst ReadEvent_loop_blank)
     apply (simp add: suffix_to_prefix)
    apply (simp only: Let_def processBuffer_def SSEReader.simps sp foldl.simps
                      processLine_empty processLine_data)
    apply (simp add: SSEEvent_zero_def NewSSEReader_def assms)
    done
  finally show ?thesis .
qed

lemma ReadEvent_body_of:
  assumes "NL \<notin> set payload" and "payload \<noteq> []"
  shows "ReadEvent (NewSSEReader (body_of (payload # payloads) fin))
         = (Inr (SSEEvent_zero\<lparr>Data := payload\<rparr>), NewSSEReader (body_of payloads fin))"
  using ReadEvent_data_event [OF assms] by (simp add: body_of_def)

lemma ReadEvent_exhausted:
  "ReadEvent (NewSSEReader \<lparr>pending = [], final = fin\<rparr>)
     = (Inl fin, NewSSEReader \<lparr>pending = [], final = fin\<rparr>)"
  using ReadEvent_loop_end [of "[]" "[]" fin "[NL, NL]" SSEEvent_zero]
  by (simp add: ReadEvent_def NewSSEReader_def)

lemma ReadEvent_body_of_Nil:
  "ReadEvent (NewSSEReader (body_of [] fin)) = (Inl fin, NewSSEReader (body_of [] fin))"
  using ReadEvent_exhausted by (simp add: body_of_def)

lemma ReadEvent_foo_bar:
  "ReadEvent (NewSSEReader \<lparr>pending = ''data: foo'' @ [NL] @ ''data: bar'' @ [NL, NL], final = fin\<rparr>)
     = (Inr (SSEEvent_zero\<lparr>Data := ''foo'' @ [NL] @ ''bar''\<rparr>),
        NewSSEReader \<lparr>pending = [], final = fin\<rparr>)"
proof -
  have sp: "Split NL (''data: foo'' @ NL # ''data: bar'' @ [NL, NL]) = [''data: foo'', ''data: bar'', [], []]"
    by simp
  have "ReadEvent (NewSSEReader \<lparr>pending = ''data: foo'' @ [NL] @ ''data: bar'' @ [NL, NL], final = fin\<rparr>)
      = ReadEvent_loop \<lparr>bufReader = \<lparr>pending = ''data: foo'' @ NL # (''data: bar'' @ [NL, NL]), final = fin\<rparr>,
            delimiter = [NL, NL], event = SSEEvent_zero, buffer = []\<rparr>"
    by (simp add: ReadEvent_def NewSSEReader_def)
  also have "\<dots> = ReadEvent_loop \<lparr>bufReader = \<lparr>pending = ''data: bar'' @ NL # [NL], final = fin\<rparr>,
            delimiter = [NL, NL], event = SSEEvent_zero, buffer = [] @ ''data: foo'' @ [NL]\<rparr>"
    by (rule ReadEvent_loop_line) (simp_all add: suffix_to_prefix)
  also have "\<dots> = ReadEvent_loop \<lparr>bufReader = \<lparr>pending = [NL], final = fin\<rparr>,
            delimiter = [NL, NL], event = SSEEvent_zero,
            buffer = ([] @ ''data: foo'' @ [NL]) @ ''data: bar'' @ [NL]\<rparr>"
    by (rule ReadEvent_loop_line) (simp_all add: suffix_to_prefix)
  also have "\<dots> = (Inr (SSEEvent_zero\<lparr>Data := ''foo'' @ [NL] @ ''bar''\<rparr>),
        NewSSEReader \<lparr>pending = [], final = fin\<rparr>)"
    apply (subst ReadEvent_loop_blank)
     apply (simp add: suffix_to_prefix)
    apply (simp add: Let_def processBuffer_def processLine_empty
                     processLine_data [of _ "''foo''", simplified]
                     processLine_data [of _ "''bar''", simplified]
                     SSEEvent_zero_def NewSSEReader_def)
    done
  finally show ?thesis .
qed

text \<open>
  Claim C5. An input that is one \<open>data:\<close> line and the blank line, with a payload that
  is not empty and has no newline, gives one event: the first \<open>ReadEvent\<close> returns the
  event whose data is the payload (the other fields empty) and uses the input up, and
  the next \<open>ReadEvent\<close> returns the end of the source. The input of the two lines
  \<open>data: foo\<close> and \<open>data: bar\<close> gives one event whose data is \<open>foo\<close>, a newline, \<open>bar\<close>.
\<close>

theorem C5_ReadEvent_single_event:
  "(NL \<notin> set payload \<and> payload \<noteq> [] \<longrightarrow>
      ReadEvent (NewSSEReader \<lparr>pending = ''data: '' @ payload @ [NL, NL], final = fin\<rparr>)
        = (Inr \<lparr>Event = [], Data = payload, SSEEvent.ID = [], Retry = 0\<rparr>,
           NewSSEReader \<lparr>pending = [], final = fin\<rparr>)
      \<and> ReadEvent (NewSSEReader \<lparr>pending = [], final = fin\<rparr>)
        = (Inl fin, NewSSEReader \<lparr>pending = [], final = fin\<rparr>))
   \<and> ReadEvent (NewSSEReader
        \<lparr>pending = ''data: foo'' @ [NL] @ ''data: bar'' @ [NL, NL], final = fin\<rparr>)
        = (Inr \<lparr>Event = [], Data = ''foo'' @ [NL] @ ''bar'', SSEEvent.ID = [], Retry = 0\<rparr>,
           NewSSEReader \<lparr>pending = [], final = fin\<rparr>)"
  using ReadEvent_data_event [of payload "[]" fin] ReadEvent_exhausted [of fin] ReadEvent_foo_bar [of fin]
  by (simp add: SSEEvent_zero_def)

theorem C5_witness:
  "ReadEvent (NewSSEReader \<lparr>pending = ''data: {}'' @ [NL, NL], final = io_EOF\<rparr>)
     = (Inr \<lparr>Event = [], Data = ''{}'', SSEEvent.ID = [], Retry = 0\<rparr>,
        NewSSEReader \<lparr>pending = [], final = io_EOF\<rparr>)
   \<and> ReadEvent (NewSSEReader \<lparr>pending = [], final = io_EOF\<rparr>)
     = (Inl io_EOF, NewSSEReader \<lparr>pending = [], final = io_EOF\<rparr>)"
  using C5_ReadEvent_single_event [of "''{}''" io_EOF] by simp

section \<open>The sentinel of the simple-delta streams\<close>

text \<open>
  Claim C4. When the event that \<open>Recv\<close> of the OpenAI or of the DeepSeek stream reads has
  the data \<open>[DONE]\<close>, the call returns \<open>io.EOF\<close> and no chunk, whatever the decoder is,
  and leaves the stream with the reader after that event and everything else as it
  was: the ghost list of the texts given to \<open>json.Unmarshal\<close> has not grown.
\<close>

theorem C4_DONE_is_completion:
  "(ReadEvent (openaiResponseStream.reader s) = (Inr ev, r') \<and> Data ev = ''[DONE]'' \<longrightarrow>
      openaiResponseStream_Recv unmarshal s = (Inl io_EOF, s\<lparr>openaiResponseStream.reader := r'\<rparr>))
  \<and> (ReadEvent (deepseekResponseStream.reader t) = (Inr ev, r') \<and> Data ev = ''[DONE]'' \<longrightarrow>
      deepseekResponseStream_Recv unmarshal' t = (Inl io_EOF, t\<lparr>deepseekResponseStream.reader := r'\<rparr>))"
  by (subst openaiResponseStream_Recv.simps, subst deepseekResponseStream_Recv.simps)
     (simp add: Let_def)

theorem C4_witness:
  "openaiResponseStream_Recv example_openai_unmarshal
     \<lparr>openaiResponseStream.reader = NewSSEReader (body_of [''[DONE]''] io_EOF),
      openaiResponseStream.rawReader = (), openaiResponseStream.unmarshalled = []\<rparr>
   = (Inl io_EOF,
      \<lparr>openaiResponseStream.reader = NewSSEReader (body_of [] io_EOF),
       openaiResponseStream.rawReader = (), openaiResponseStream.unmarshalled = []\<rparr>)
  \<and> deepseekResponseStream_Recv example_deepseek_unmarshal
     \<lparr>deepseekResponseStream.reader = NewSSEReader (body_of [''[DONE]''] io_EOF),
      deepseekResponseStream.rawReader = (), deepseekResponseStream.unmarshalled = []\<rparr>
   = (Inl io_EOF,
      \<lparr>deepseekResponseStream.reader = NewSSEReader (body_of [] io_EOF),
       deepseekResponseStream.rawReader = (), deepseekResponseStream.unmarshalled = []\<rparr>)"
proof -
  have re: "ReadEvent (NewSSEReader (body_of [''[DONE]''] io_EOF))
      = (Inr (SSEEvent_zero\<lparr>Data := ''[DONE]''\<rparr>), NewSSEReader (body_of [] io_EOF))"
    by (rule ReadEvent_body_of) simp_all
  show ?thesis
    using re
      C4_DONE_is_completion
        [where s = "\<lparr>openaiResponseStream.reader = NewSSEReader (body_of [''[DONE]''] io_EOF),
                     openaiResponseStream.rawReader = (), openaiResponseStream.unmarshalled = []\<rparr>"
           and t = "\<lparr>deepseekResponseStream.reader = NewSSEReader (body_of [''[DONE]''] io_EOF),
                     deepseekResponseStream.rawReader = (), deepseekResponseStream.unmarshalled = []\<rparr>"
           and ev = "SSEEvent_zero\<lparr>Data := ''[DONE]''\<rparr>"
           and r' = "NewSSEReader (body_of [] io_EOF)"
           and unmarshal = example_openai_unmarshal
           and unmarshal' = example_deepseek_unmarshal]
    by simp
qed

section \<open>The Anthropic stream\<close>

text \<open>
  Claim C2. An event of type \<open>message_delta\<close> ends the stream when its stop reason (the
  field \<open>StopReason\<close> of the decoded \<open>Message\<close>) is not empty: \<open>Recv\<close> returns \<open>io.EOF\<close>.
  When the stop reason is empty the event is a no-op: \<open>Recv\<close> returns whatever it
  returns on the stream after that event.
\<close>

theorem C2_message_delta:
  assumes "ReadEvent (anthropicResponseStream.reader s) = (Inr ev, r')"
    and "Data ev \<noteq> []"
    and "unmarshal (ParseSSEData (Data ev)) = Inr streamResp"
    and "AnthropicStreamResponse.Type streamResp = ''message_delta''"
  shows "(StopReason (AnthropicStreamResponse.Message streamResp) \<noteq> [] \<longrightarrow>
           anthropicResponseStream_Recv unmarshal now s
             = (Inl io_EOF, s\<lparr>anthropicResponseStream.reader := r',
                   anthropicResponseStream.unmarshalled :=
                     anthropicResponseStream.unmarshalled s @ [ParseSSEData (Data ev)]\<rparr>))
       \<and> (StopReason (AnthropicStreamResponse.Message streamResp) = [] \<longrightarrow>
           anthropicResponseStream_Recv unmarshal now s
             = anthropicResponseStream_Recv unmarshal now
                 (s\<lparr>anthropicResponseStream.reader := r',
                   anthropicResponseStream.unmarshalled :=
                     anthropicResponseStream.unmarshalled s @ [ParseSSEData (Data ev)]\<rparr>))"
  using assms
  by (subst anthropicResponseStream_Recv.simps, subst (2) anthropicResponseStream_Recv.simps)
     (simp add: Let_def)

theorem C2_witness:
  \<open>anthropicResponseStream_Recv example_anthropic_unmarshal 0
     \<lparr>anthropicResponseStream.reader =
        NewSSEReader (body_of [''{"type":"message_delta","message":{"stop_reason":"end_turn"}}''] io_EOF),
      anthropicResponseStream.rawReader = (), anthropicResponseStream.unmarshalled = []\<rparr>
   = (Inl io_EOF,
      \<lparr>anthropicResponseStream.reader = NewSSEReader (body_of [] io_EOF),
       anthropicResponseStream.rawReader = (),
       anthropicResponseStream.unmarshalled =
         [''{"type":"message_delta","message":{"stop_reason":"end_turn"}}'']\<rparr>)
   \<and> anthropicResponseStream_Recv example_anthropic_unmarshal 0
     \<lparr>anthropicResponseStream.reader = NewSSEReader (body_of [''{"type":"message_delta"}''] io_EOF),
      anthropicResponseStream.rawReader = (), anthropicResponseStream.unmarshalled = []\<rparr>
   = anthropicResponseStream_Recv example_anthropic_unmarshal 0
      \<lparr>anthropicResponseStream.reader = NewSSEReader (body_of [] io_EOF),
       anthropicResponseStream.rawReader = (),
       anthropicResponseStream.unmarshalled = [''{"type":"message_delta"}'']\<rparr>\<close>
proof -
  have re1: \<open>ReadEvent (anthropicResponseStream.reader
       \<lparr>anthropicResponseStream.reader =
          NewSSEReader (body_of [''{"type":"message_delta","message":{"stop_reason":"end_turn"}}''] io_EOF),
        anthropicResponseStream.rawReader = (), anthropicResponseStream.unmarshalled = []\<rparr>)
      = (Inr (SSEEvent_zero\<lparr>Data := ''{"type":"message_delta","message":{"stop_reason":"end_turn"}}''\<rparr>),
         NewSSEReader (body_of [] io_EOF))\<close>
    using ReadEvent_body_of [of \<open>''{"type":"message_delta","message":{"stop_reason":"end_turn"}}''\<close> "[]" io_EOF]
    by simp
  have re2: \<open>ReadEvent (anthropicResponseStream.reader
       \<lparr>anthropicResponseStream.reader = NewSSEReader (body_of [''{"type":"message_delta"}''] io_EOF),
        anthropicResponseStream.rawReader = (), anthropicResponseStream.unmarshalled = []\<rparr>)
      = (Inr (SSEEvent_zero\<lparr>Data := ''{"type":"message_delta"}''\<rparr>),
         NewSSEReader (body_of [] io_EOF))\<close>
    using ReadEvent_body_of [of \<open>''{"type":"message_delta"}''\<close> "[]" io_EOF]
    by simp
  have dec1: \<open>example_anthropic_unmarshal
      (ParseSSEData (Data (SSEEvent_zero\<lparr>Data := ''{"type":"message_delta","message":{"stop_reason":"end_turn"}}''\<rparr>)))
      = Inr (AnthropicStreamResponse_zero
              \<lparr>AnthropicStreamResponse.Type := ''message_delta'',
               AnthropicStreamResponse.Message :=
                 (AnthropicStreamResponse.Message AnthropicStreamResponse_zero)
                   \<lparr>StopReason := ''end_turn''\<rparr>\<rparr>)\<close>
    by (simp add: example_anthropic_unmarshal_def ParseSSEData_def)
  have dec2: \<open>example_anthropic_unmarshal
      (ParseSSEData (Data (SSEEvent_zero\<lparr>Data := ''{"type":"message_delta"}''\<rparr>)))
      = Inr (AnthropicStreamResponse_zero\<lparr>AnthropicStreamResponse.Type := ''message_delta''\<rparr>)\<close>
    by (simp add: example_anthropic_unmarshal_def ParseSSEData_def)
  show ?thesis
    using
      C2_message_delta
        [where s = \<open>\<lparr>anthropicResponseStream.reader =
            NewSSEReader (body_of [''{"type":"message_delta","message":{"stop_reason":"end_turn"}}''] io_EOF),
            anthropicResponseStream.rawReader = (), anthropicResponseStream.unmarshalled = []\<rparr>\<close>
           and unmarshal = example_anthropic_unmarshal and now = 0, OF re1 _ dec1]
      C2_message_delta
        [where s = \<open>\<lparr>anthropicResponseStream.reader =
            NewSSEReader (body_of [''{"type":"message_delta"}''] io_EOF),
            anthropicResponseStream.rawReader = (), anthropicResponseStream.unmarshalled = []\<rparr>\<close>
           and unmarshal = example_anthropic_unmarshal and now = 0, OF re2 _ dec2]
    by (simp add: AnthropicStreamResponse_zero_def ParseSSEData_def)
qed

text \<open>One call of \<open>Recv\<close> on an event whose data decodes.\<close>

lemma anthropic_Recv_decoded:
  assumes "ReadEvent (anthropicResponseStream.reader s) = (Inr ev, r')"
    and "Data ev \<noteq> []"
    and "unmarshal (ParseSSEData (Data ev)) = Inr streamResp"
  shows "anthropicResponseStream_Recv unmarshal now s =
    (let s2 = s\<lparr>anthropicResponseStream.reader := r',
                 anthropicResponseStream.unmarshalled :=
                   anthropicResponseStream.unmarshalled s @ [ParseSSEData (Data ev)]\<rparr>
     in if AnthropicStreamResponse.Type streamResp = ''message_stop'' then (Inl io_EOF, s2)
        else if AnthropicStreamResponse.Type streamResp = ''content_block_delta'' then
          (case AnthropicStreamResponse.Delta streamResp of
             None \<Rightarrow> anthropicResponseStream_Recv unmarshal now s2
           | Some delta \<Rightarrow>
               if AnthropicContentDelta.Type delta \<noteq> ''text''
               then anthropicResponseStream_Recv unmarshal now s2
               else
                 (Inr \<lparr>ResponseChunk.ID = [],
                       ResponseChunk.Object = ''chat.completion.chunk'',
                       ResponseChunk.Created = now,
                       ResponseChunk.Model = [],
                       ResponseChunk.Choices =
                         [\<lparr>ChunkChoice.Index = AnthropicStreamResponse.Index streamResp,
                           ChunkChoice.Delta =
                             \<lparr>Message.Role = RoleAssistant,
                              Message.Content = AnthropicContentDelta.Text delta\<rparr>,
                           ChunkChoice.FinishReason = []\<rparr>]\<rparr>,
                  s2))
        else if AnthropicStreamResponse.Type streamResp = ''message_delta''
                \<and> StopReason (AnthropicStreamResponse.Message streamResp) \<noteq> []
        then (Inl io_EOF, s2)
        else anthropicResponseStream_Recv unmarshal now s2)"
  using assms
  by (subst anthropicResponseStream_Recv.simps)
     (simp add: Let_def split: option.splits)

lemma anthropic_Recv_body_of:
  assumes "NL \<notin> set d" and "d \<noteq> []"
    and "unmarshal (ParseSSEData d) = Inr streamResp"
  shows "anthropicResponseStream_Recv unmarshal now
           \<lparr>anthropicResponseStream.reader = NewSSEReader (body_of (d # ds) fin),
            anthropicResponseStream.rawReader = c, anthropicResponseStream.unmarshalled = u\<rparr> =
    (let s2 = \<lparr>anthropicResponseStream.reader = NewSSEReader (body_of ds fin),
               anthropicResponseStream.rawReader = c,
               anthropicResponseStream.unmarshalled = u @ [ParseSSEData d]\<rparr>
     in if AnthropicStreamResponse.Type streamResp = ''message_stop'' then (Inl io_EOF, s2)
        else if AnthropicStreamResponse.Type streamResp = ''content_block_delta'' then
          (case AnthropicStreamResponse.Delta streamResp of
             None \<Rightarrow> anthropicResponseStream_Recv unmarshal now s2
           | Some delta \<Rightarrow>
               if AnthropicContentDelta.Type delta \<noteq> ''text''
               then anthropicResponseStream_Recv unmarshal now s2
               else
                 (Inr \<lparr>ResponseChunk.ID = [],
                       ResponseChunk.Object = ''chat.completion.chunk'',
                       ResponseChunk.Created = now,
                       ResponseChunk.Model = [],
                       ResponseChunk.Choices =
                         [\<lparr>ChunkChoice.Index = AnthropicStreamResponse.Index streamResp,
                           ChunkChoice.Delta =
                             \<lparr>Message.Role = RoleAssistant,
                              Message.Content = AnthropicContentDelta.Text delta\<rparr>,
                           ChunkChoice.FinishReason = []\<rparr>]\<rparr>,
                  s2))
        else if AnthropicStreamResponse.Type streamResp = ''message_delta''
                \<and> StopReason (AnthropicStreamResponse.Message streamResp) \<noteq> []
        then (Inl io_EOF, s2)
        else anthropicResponseStream_Recv unmarshal now s2)"
proof -
  have re: "ReadEvent (anthropicResponseStream.reader
               \<lparr>anthropicResponseStream.reader = NewSSEReader (body_of (d # ds) fin),
                anthropicResponseStream.rawReader = c, anthropicResponseStream.unmarshalled = u\<rparr>)
            = (Inr (SSEEvent_zero\<lparr>Data := d\<rparr>), NewSSEReader (body_of ds fin))"
    using ReadEvent_body_of [OF assms(1,2)] by simp
  show ?thesis
    using assms
      anthropic_Recv_decoded
        [where s = "\<lparr>anthropicResponseStream.reader = NewSSEReader (body_of (d # ds) fin),
                anthropicResponseStream.rawReader = c, anthropicResponseStream.unmarshalled = u\<rparr>"
           and unmarshal = unmarshal and streamResp = streamResp and now = now, OF re]
    by simp
qed

lemma anthropic_four_events:
  assumes ok: "\<forall>d \<in> set [d1, d2, d3, d4]. d \<noteq> [] \<and> NL \<notin> set d"
    and m1: "unmarshal (ParseSSEData d1) = Inr m1" "AnthropicStreamResponse.Type m1 = ''message_start''"
    and m2: "unmarshal (ParseSSEData d2) = Inr m2" "AnthropicStreamResponse.Type m2 = ''content_block_delta''"
            "AnthropicStreamResponse.Delta m2
               = Some \<lparr>AnthropicContentDelta.Type = ''text'', AnthropicContentDelta.Text = ''a''\<rparr>"
    and m3: "unmarshal (ParseSSEData d3) = Inr m3" "AnthropicStreamResponse.Type m3 = ''content_block_delta''"
            "AnthropicStreamResponse.Delta m3
               = Some \<lparr>AnthropicContentDelta.Type = ''text'', AnthropicContentDelta.Text = ''b''\<rparr>"
    and m4: "unmarshal (ParseSSEData d4) = Inr m4" "AnthropicStreamResponse.Type m4 = ''message_stop''"
  shows "anthropicResponseStream_Recv unmarshal t1
           \<lparr>anthropicResponseStream.reader = NewSSEReader (body_of [d1, d2, d3, d4] fin),
            anthropicResponseStream.rawReader = c, anthropicResponseStream.unmarshalled = []\<rparr>
         = (Inr \<lparr>ResponseChunk.ID = [], ResponseChunk.Object = ''chat.completion.chunk'',
                 ResponseChunk.Created = t1, ResponseChunk.Model = [],
                 ResponseChunk.Choices =
                   [\<lparr>ChunkChoice.Index = AnthropicStreamResponse.Index m2,
                     ChunkChoice.Delta = \<lparr>Message.Role = RoleAssistant, Message.Content = ''a''\<rparr>,
                     ChunkChoice.FinishReason = []\<rparr>]\<rparr>,
            \<lparr>anthropicResponseStream.reader = NewSSEReader (body_of [d3, d4] fin),
             anthropicResponseStream.rawReader = c,
             anthropicResponseStream.unmarshalled = [ParseSSEData d1, ParseSSEData d2]\<rparr>)"
    and "anthropicResponseStream_Recv unmarshal t2
           \<lparr>anthropicResponseStream.reader = NewSSEReader (body_of [d3, d4] fin),
            anthropicResponseStream.rawReader = c,
            anthropicResponseStream.unmarshalled = [ParseSSEData d1, ParseSSEData d2]\<rparr>
         = (Inr \<lparr>ResponseChunk.ID = [], ResponseChunk.Object = ''chat.completion.chunk'',
                 ResponseChunk.Created = t2, ResponseChunk.Model = [],
                 ResponseChunk.Choices =
                   [\<lparr>ChunkChoice.Index = AnthropicStreamResponse.Index m3,
                     ChunkChoice.Delta = \<lparr>Message.Role = RoleAssistant, Message.Content = ''b''\<rparr>,
                     ChunkChoice.FinishReason = []\<rparr>]\<rparr>,
            \<lparr>anthropicResponseStream.reader = NewSSEReader (body_of [d4] fin),
             anthropicResponseStream.rawReader = c,
             anthropicResponseStream.unmarshalled = [ParseSSEData d1, ParseSSEData d2, ParseSSEData d3]\<rparr>)"
    and "anthropicResponseStream_Recv unmarshal t3
           \<lparr>anthropicResponseStream.reader = NewSSEReader (body_of [d4] fin),
            anthropicResponseStream.rawReader = c,
            anthropicResponseStream.unmarshalled = [ParseSSEData d1, ParseSSEData d2, ParseSSEData d3]\<rparr>
         = (Inl io_EOF,
            \<lparr>anthropicResponseStream.reader = NewSSEReader (body_of [] fin),
             anthropicResponseStream.rawReader = c,
             anthropicResponseStream.unmarshalled =
               [ParseSSEData d1, ParseSSEData d2, ParseSSEData d3, ParseSSEData d4]\<rparr>)"
proof -
  from ok have d: "d1 \<noteq> []" "NL \<notin> set d1" "d2 \<noteq> []" "NL \<notin> set d2"
    "d3 \<noteq> []" "NL \<notin> set d3" "d4 \<noteq> []" "NL \<notin> set d4"
    by simp_all
  have skip: "anthropicResponseStream_Recv unmarshal t1
           \<lparr>anthropicResponseStream.reader = NewSSEReader (body_of [d1, d2, d3, d4] fin),
            anthropicResponseStream.rawReader = c, anthropicResponseStream.unmarshalled = []\<rparr>
      = anthropicResponseStream_Recv unmarshal t1
           \<lparr>anthropicResponseStream.reader = NewSSEReader (body_of [d2, d3, d4] fin),
            anthropicResponseStream.rawReader = c, anthropicResponseStream.unmarshalled = [ParseSSEData d1]\<rparr>"
    using anthropic_Recv_body_of [where unmarshal = unmarshal and d = d1 and streamResp = m1 and now = t1
        and ds = "[d2, d3, d4]" and fin = fin and c = c and u = "[]", OF d(2,1) m1(1)] m1(2)
    by simp
  show "anthropicResponseStream_Recv unmarshal t1
           \<lparr>anthropicResponseStream.reader = NewSSEReader (body_of [d1, d2, d3, d4] fin),
            anthropicResponseStream.rawReader = c, anthropicResponseStream.unmarshalled = []\<rparr>
         = (Inr \<lparr>ResponseChunk.ID = [], ResponseChunk.Object = ''chat.completion.chunk'',
                 ResponseChunk.Created = t1, ResponseChunk.Model = [],
                 ResponseChunk.Choices =
                   [\<lparr>ChunkChoice.Index = AnthropicStreamResponse.Index m2,
                     ChunkChoice.Delta = \<lparr>Message.Role = RoleAssistant, Message.Content = ''a''\<rparr>,
                     ChunkChoice.FinishReason = []\<rparr>]\<rparr>,
            \<lparr>anthropicResponseStream.reader = NewSSEReader (body_of [d3, d4] fin),
             anthropicResponseStream.rawReader = c,
             anthropicResponseStream.unmarshalled = [ParseSSEData d1, ParseSSEData d2]\<rparr>)"
    unfolding skip
    using anthropic_Recv_body_of [where unmarshal = unmarshal and d = d2 and streamResp = m2 and now = t1
        and ds = "[d3, d4]" and fin = fin and c = c and u = "[ParseSSEData d1]", OF d(4,3) m2(1)] m2(2,3)
    by simp
  show "anthropicResponseStream_Recv unmarshal t2
           \<lparr>anthropicResponseStream.reader = NewSSEReader (body_of [d3, d4] fin),
            anthropicResponseStream.rawReader = c,
            anthropicResponseStream.unmarshalled = [ParseSSEData d1, ParseSSEData d2]\<rparr>
         = (Inr \<lparr>ResponseChunk.ID = [], ResponseChunk.Object = ''chat.completion.chunk'',
                 ResponseChunk.Created = t2, ResponseChunk.Model = [],
                 ResponseChunk.Choices =
                   [\<lparr>ChunkChoice.Index = AnthropicStreamResponse.Index m3,
                     ChunkChoice.Delta = \<lparr>Message.Role = RoleAssistant, Message.Content = ''b''\<rparr>,
                     ChunkChoice.FinishReason = []\<rparr>]\<rparr>,
            \<lparr>anthropicResponseStream.reader = NewSSEReader (body_of [d4] fin),
             anthropicResponseStream.rawReader = c,
             anthropicResponseStream.unmarshalled = [ParseSSEData d1, ParseSSEData d2, ParseSSEData d3]\<rparr>)"
    using anthropic_Recv_body_of [where unmarshal = unmarshal and d = d3 and streamResp = m3 and now = t2
        and ds = "[d4]" and fin = fin and c = c and u = "[ParseSSEData d1, ParseSSEData d2]", OF d(6,5) m3(1)] m3(2,3)
    by simp
  show "anthropicResponseStream_Recv unmarshal t3
           \<lparr>anthropicResponseStream.reader = NewSSEReader (body_of [d4] fin),
            anthropicResponseStream.rawReader = c,
            anthropicResponseStream.unmarshalled = [ParseSSEData d1, ParseSSEData d2, ParseSSEData d3]\<rparr>
         = (Inl io_EOF,
            \<lparr>anthropicResponseStream.reader = NewSSEReader (body_of [] fin),
             anthropicResponseStream.rawReader = c,
             anthropicResponseStream.unmarshalled =
               [ParseSSEData d1, ParseSSEData d2, ParseSSEData d3, ParseSSEData d4]\<rparr>)"
    using anthropic_Recv_body_of [where unmarshal = unmarshal and d = d4 and streamResp = m4 and now = t3
        and ds = "[]" and fin = fin and c = c and u = "[ParseSSEData d1, ParseSSEData d2, ParseSSEData d3]", OF d(8,7) m4(1)] m4(2)
    by simp
qed

text \<open>
  Claim C3. A body that carries four events, which decode to \<open>message_start\<close>, a
  \<open>content_block_delta\<close> whose delta has type \<open>text\<close> and text \<open>a\<close>, the same with text
  \<open>b\<close>, and \<open>message_stop\<close>: the first \<open>Recv\<close> returns the chunk with the one choice of
  text \<open>a\<close>, role assistant and the index of the second event, the second \<open>Recv\<close> the
  chunk of text \<open>b\<close> at the index of the third event, and the third \<open>Recv\<close> returns
  \<open>io.EOF\<close>. The first and the last event give no chunk.
\<close>

theorem C3_start_two_deltas_stop:
  assumes "\<forall>d \<in> set [d1, d2, d3, d4]. d \<noteq> [] \<and> NL \<notin> set d"
    and "unmarshal (ParseSSEData d1) = Inr m1" and "AnthropicStreamResponse.Type m1 = ''message_start''"
    and "unmarshal (ParseSSEData d2) = Inr m2"
    and "AnthropicStreamResponse.Type m2 = ''content_block_delta''"
    and "AnthropicStreamResponse.Delta m2
           = Some \<lparr>AnthropicContentDelta.Type = ''text'', AnthropicContentDelta.Text = ''a''\<rparr>"
    and "unmarshal (ParseSSEData d3) = Inr m3"
    and "AnthropicStreamResponse.Type m3 = ''content_block_delta''"
    and "AnthropicStreamResponse.Delta m3
           = Some \<lparr>AnthropicContentDelta.Type = ''text'', AnthropicContentDelta.Text = ''b''\<rparr>"
    and "unmarshal (ParseSSEData d4) = Inr m4" and "AnthropicStreamResponse.Type m4 = ''message_stop''"
  shows "anthropicResponseStream_Recv unmarshal t1
           \<lparr>anthropicResponseStream.reader = NewSSEReader (body_of [d1, d2, d3, d4] fin),
            anthropicResponseStream.rawReader = c, anthropicResponseStream.unmarshalled = []\<rparr>
         = (Inr \<lparr>ResponseChunk.ID = [], ResponseChunk.Object = ''chat.completion.chunk'',
                 ResponseChunk.Created = t1, ResponseChunk.Model = [],
                 ResponseChunk.Choices =
                   [\<lparr>ChunkChoice.Index = AnthropicStreamResponse.Index m2,
                     ChunkChoice.Delta = \<lparr>Message.Role = RoleAssistant, Message.Content = ''a''\<rparr>,
                     ChunkChoice.FinishReason = []\<rparr>]\<rparr>,
            \<lparr>anthropicResponseStream.reader = NewSSEReader (body_of [d3, d4] fin),
             anthropicResponseStream.rawReader = c,
             anthropicResponseStream.unmarshalled = [ParseSSEData d1, ParseSSEData d2]\<rparr>)
    \<and> anthropicResponseStream_Recv unmarshal t2
           \<lparr>anthropicResponseStream.reader = NewSSEReader (body_of [d3, d4] fin),
            anthropicResponseStream.rawReader = c,
            anthropicResponseStream.unmarshalled = [ParseSSEData d1, ParseSSEData d2]\<rparr>
         = (Inr \<lparr>ResponseChunk.ID = [], ResponseChunk.Object = ''chat.completion.chunk'',
                 ResponseChunk.Created = t2, ResponseChunk.Model = [],
                 ResponseChunk.Choices =
                   [\<lparr>ChunkChoice.Index = AnthropicStreamResponse.Index m3,
                     ChunkChoice.Delta = \<lparr>Message.Role = RoleAssistant, Message.Content = ''b''\<rparr>,
                     ChunkChoice.FinishReason = []\<rparr>]\<rparr>,
            \<lparr>anthropicResponseStream.reader = NewSSEReader (body_of [d4] fin),
             anthropicResponseStream.rawReader = c,
             anthropicResponseStream.unmarshalled = [ParseSSEData d1, ParseSSEData d2, ParseSSEData d3]\<rparr>)
    \<and> anthropicResponseStream_Recv unmarshal t3
           \<lparr>anthropicResponseStream.reader = NewSSEReader (body_of [d4] fin),
            anthropicResponseStream.rawReader = c,
            anthropicResponseStream.unmarshalled = [ParseSSEData d1, ParseSSEData d2, ParseSSEData d3]\<rparr>
         = (Inl io_EOF,
            \<lparr>anthropicResponseStream.reader = NewSSEReader (body_of [] fin),
             anthropicResponseStream.rawReader = c,
             anthropicResponseStream.unmarshalled =
               [ParseSSEData d1, ParseSSEData d2, ParseSSEData d3, ParseSSEData d4]\<rparr>)"
  by (intro conjI anthropic_four_events [OF assms])

lemma example_anthropic_decodes:
  \<open>example_anthropic_unmarshal (ParseSSEData ''{"type":"message_start"}'')
     = Inr (AnthropicStreamResponse_zero\<lparr>AnthropicStreamResponse.Type := ''message_start''\<rparr>)\<close>
  \<open>example_anthropic_unmarshal
      (ParseSSEData ''{"type":"content_block_delta","delta":{"type":"text","text":"a"}}'')
     = Inr (AnthropicStreamResponse_zero
              \<lparr>AnthropicStreamResponse.Type := ''content_block_delta'',
               AnthropicStreamResponse.Delta :=
                 Some \<lparr>AnthropicContentDelta.Type = ''text'', AnthropicContentDelta.Text = ''a''\<rparr>\<rparr>)\<close>
  \<open>example_anthropic_unmarshal
      (ParseSSEData ''{"type":"content_block_delta","delta":{"type":"text","text":"b"}}'')
     = Inr (AnthropicStreamResponse_zero
              \<lparr>AnthropicStreamResponse.Type := ''content_block_delta'',
               AnthropicStreamResponse.Delta :=
                 Some \<lparr>AnthropicContentDelta.Type = ''text'', AnthropicContentDelta.Text = ''b''\<rparr>\<rparr>)\<close>
  \<open>example_anthropic_unmarshal (ParseSSEData ''{"type":"message_stop"}'')
     = Inr (AnthropicStreamResponse_zero\<lparr>AnthropicStreamResponse.Type := ''message_stop''\<rparr>)\<close>
  by (simp_all add: example_anthropic_unmarshal_def ParseSSEData_def)

theorem C3_witness:
  \<open>anthropicResponseStream_Recv example_anthropic_unmarshal 1700000000
     \<lparr>anthropicResponseStream.reader = NewSSEReader (body_of
        [''{"type":"message_start"}'',
         ''{"type":"content_block_delta","delta":{"type":"text","text":"a"}}'',
         ''{"type":"content_block_delta","delta":{"type":"text","text":"b"}}'',
         ''{"type":"message_stop"}''] io_EOF),
      anthropicResponseStream.rawReader = (), anthropicResponseStream.unmarshalled = []\<rparr>
   = (Inr \<lparr>ResponseChunk.ID = [], ResponseChunk.Object = ''chat.completion.chunk'',
           ResponseChunk.Created = 1700000000, ResponseChunk.Model = [],
           ResponseChunk.Choices =
             [\<lparr>ChunkChoice.Index = 0,
               ChunkChoice.Delta = \<lparr>Message.Role = ''assistant'', Message.Content = ''a''\<rparr>,
               ChunkChoice.FinishReason = []\<rparr>]\<rparr>,
      \<lparr>anthropicResponseStream.reader = NewSSEReader (body_of
        [''{"type":"content_block_delta","delta":{"type":"text","text":"b"}}'',
         ''{"type":"message_stop"}''] io_EOF),
       anthropicResponseStream.rawReader = (),
       anthropicResponseStream.unmarshalled =
         [''{"type":"message_start"}'',
          ''{"type":"content_block_delta","delta":{"type":"text","text":"a"}}'']\<rparr>)
  \<and> anthropicResponseStream_Recv example_anthropic_unmarshal 1700000001
      \<lparr>anthropicResponseStream.reader = NewSSEReader (body_of
        [''{"type":"content_block_delta","delta":{"type":"text","text":"b"}}'',
         ''{"type":"message_stop"}''] io_EOF),
       anthropicResponseStream.rawReader = (),
       anthropicResponseStream.unmarshalled =
         [''{"type":"message_start"}'',
          ''{"type":"content_block_delta","delta":{"type":"text","text":"a"}}'']\<rparr>
   = (Inr \<lparr>ResponseChunk.ID = [], ResponseChunk.Object = ''chat.completion.chunk'',
           ResponseChunk.Created = 1700000001, ResponseChunk.Model = [],
           ResponseChunk.Choices =
             [\<lparr>ChunkChoice.Index = 0,
               ChunkChoice.Delta = \<lparr>Message.Role = ''assistant'', Message.Content = ''b''\<rparr>,
               ChunkChoice.FinishReason = []\<rparr>]\<rparr>,
      \<lparr>anthropicResponseStream.reader = NewSSEReader (body_of [''{"type":"message_stop"}''] io_EOF),
       anthropicResponseStream.rawReader = (),
       anthropicResponseStream.unmarshalled =
         [''{"type":"message_start"}'',
          ''{"type":"content_block_delta","delta":{"type":"text","text":"a"}}'',
          ''{"type":"content_block_delta","delta":{"type":"text","text":"b"}}'']\<rparr>)
  \<and> anthropicResponseStream_Recv example_anthropic_unmarshal 1700000002
      \<lparr>anthropicResponseStream.reader = NewSSEReader (body_of [''{"type":"message_stop"}''] io_EOF),
       anthropicResponseStream.rawReader = (),
       anthropicResponseStream.unmarshalled =
         [''{"type":"message_start"}'',
          ''{"type":"content_block_delta","delta":{"type":"text","text":"a"}}'',
          ''{"type":"content_block_delta","delta":{"type":"text","text":"b"}}'']\<rparr>
   = (Inl io_EOF,
      \<lparr>anthropicResponseStream.reader = NewSSEReader (body_of [] io_EOF),
       anthropicResponseStream.rawReader = (),
       anthropicResponseStream.unmarshalled =
         [''{"type":"message_start"}'',
          ''{"type":"content_block_delta","delta":{"type":"text","text":"a"}}'',
          ''{"type":"content_block_delta","delta":{"type":"text","text":"b"}}'',
          ''{"type":"message_stop"}'']\<rparr>)\<close>
  using
    C3_start_two_deltas_stop
      [where unmarshal = example_anthropic_unmarshal
         and ?d1.0 = \<open>''{"type":"message_start"}''\<close>
         and ?d2.0 = \<open>''{"type":"content_block_delta","delta":{"type":"text","text":"a"}}''\<close>
         and ?d3.0 = \<open>''{"type":"content_block_delta","delta":{"type":"text","text":"b"}}''\<close>
         and ?d4.0 = \<open>''{"type":"message_stop"}''\<close>
         and ?t1.0 = 1700000000 and ?t2.0 = 1700000001 and ?t3.0 = 1700000002
         and fin = io_EOF and c = "()",
       OF _ example_anthropic_decodes(1) _ example_anthropic_decodes(2) _ _
            example_anthropic_decodes(3) _ _ example_anthropic_decodes(4)]
  by (simp add: AnthropicStreamResponse_zero_def ParseSSEData_def RoleAssistant_def)

text \<open>
  Claim C10. Every chunk that \<open>Recv\<close> of the Anthropic stream returns has an empty ID,
  an empty model, the object \<open>chat.completion.chunk\<close> and one choice, whose delta has
  the role assistant.
\<close>

lemma anthropic_Recv_chunk_step:
  assumes "anthropicResponseStream_Recv unmarshal now s = (Inr chunk, s')"
  shows "\<exists>ev r'. ReadEvent (anthropicResponseStream.reader s) = (Inr ev, r')
     \<and> ((ResponseChunk.ID chunk = [] \<and> ResponseChunk.Model chunk = []
          \<and> ResponseChunk.Object chunk = ''chat.completion.chunk''
          \<and> length (ResponseChunk.Choices chunk) = 1
          \<and> Message.Role (ChunkChoice.Delta (ResponseChunk.Choices chunk ! 0)) = RoleAssistant)
        \<or> anthropicResponseStream_Recv unmarshal now (s\<lparr>anthropicResponseStream.reader := r'\<rparr>)
            = (Inr chunk, s')
        \<or> anthropicResponseStream_Recv unmarshal now
             (s\<lparr>anthropicResponseStream.reader := r',
                anthropicResponseStream.unmarshalled :=
                  anthropicResponseStream.unmarshalled s @ [ParseSSEData (Data ev)]\<rparr>)
            = (Inr chunk, s'))"
  using assms
  by (subst (asm) anthropicResponseStream_Recv.simps)
     (auto simp: Let_def split: prod.splits sum.splits if_splits option.splits)

theorem C10_anthropic_chunk_shape:
  "anthropicResponseStream_Recv unmarshal now s = (Inr chunk, s') \<Longrightarrow>
     ResponseChunk.ID chunk = [] \<and> ResponseChunk.Model chunk = []
     \<and> ResponseChunk.Object chunk = ''chat.completion.chunk''
     \<and> length (ResponseChunk.Choices chunk) = 1
     \<and> Message.Role (ChunkChoice.Delta (ResponseChunk.Choices chunk ! 0)) = RoleAssistant"
proof (induction "unread (anthropicResponseStream.reader s)" arbitrary: s rule: less_induct)
  case less
  from anthropic_Recv_chunk_step [OF less.prems] obtain ev r'
    where re: "ReadEvent (anthropicResponseStream.reader s) = (Inr ev, r')"
      and alt: "(ResponseChunk.ID chunk = [] \<and> ResponseChunk.Model chunk = []
          \<and> ResponseChunk.Object chunk = ''chat.completion.chunk''
          \<and> length (ResponseChunk.Choices chunk) = 1
          \<and> Message.Role (ChunkChoice.Delta (ResponseChunk.Choices chunk ! 0)) = RoleAssistant)
        \<or> anthropicResponseStream_Recv unmarshal now (s\<lparr>anthropicResponseStream.reader := r'\<rparr>)
            = (Inr chunk, s')
        \<or> anthropicResponseStream_Recv unmarshal now
             (s\<lparr>anthropicResponseStream.reader := r',
                anthropicResponseStream.unmarshalled :=
                  anthropicResponseStream.unmarshalled s @ [ParseSSEData (Data ev)]\<rparr>)
            = (Inr chunk, s')"
    by blast
  have smaller: "unread r' < unread (anthropicResponseStream.reader s)"
    using ReadEvent_unread [OF re] .
  from alt show ?case
  proof (elim disjE)
    assume "ResponseChunk.ID chunk = [] \<and> ResponseChunk.Model chunk = []
          \<and> ResponseChunk.Object chunk = ''chat.completion.chunk''
          \<and> length (ResponseChunk.Choices chunk) = 1
          \<and> Message.Role (ChunkChoice.Delta (ResponseChunk.Choices chunk ! 0)) = RoleAssistant"
    then show ?thesis .
  next
    assume "anthropicResponseStream_Recv unmarshal now (s\<lparr>anthropicResponseStream.reader := r'\<rparr>)
            = (Inr chunk, s')"
    from less.hyps [OF _ this] smaller show ?thesis
      by simp
  next
    assume "anthropicResponseStream_Recv unmarshal now
             (s\<lparr>anthropicResponseStream.reader := r',
                anthropicResponseStream.unmarshalled :=
                  anthropicResponseStream.unmarshalled s @ [ParseSSEData (Data ev)]\<rparr>)
            = (Inr chunk, s')"
    from less.hyps [OF _ this] smaller show ?thesis
      by simp
  qed
qed

theorem C10_witness:
  \<open>anthropicResponseStream_Recv example_anthropic_unmarshal 1700000000
     \<lparr>anthropicResponseStream.reader = NewSSEReader (body_of
        [''{"type":"message_start"}'',
         ''{"type":"content_block_delta","delta":{"type":"text","text":"a"}}'',
         ''{"type":"content_block_delta","delta":{"type":"text","text":"b"}}'',
         ''{"type":"message_stop"}''] io_EOF),
      anthropicResponseStream.rawReader = (), anthropicResponseStream.unmarshalled = []\<rparr>
   = (Inr \<lparr>ResponseChunk.ID = [], ResponseChunk.Object = ''chat.completion.chunk'',
           ResponseChunk.Created = 1700000000, ResponseChunk.Model = [],
           ResponseChunk.Choices =
             [\<lparr>ChunkChoice.Index = 0,
               ChunkChoice.Delta = \<lparr>Message.Role = ''assistant'', Message.Content = ''a''\<rparr>,
               ChunkChoice.FinishReason = []\<rparr>]\<rparr>,
      \<lparr>anthropicResponseStream.reader = NewSSEReader (body_of
        [''{"type":"content_block_delta","delta":{"type":"text","text":"b"}}'',
         ''{"type":"message_stop"}''] io_EOF),
       anthropicResponseStream.rawReader = (),
       anthropicResponseStream.unmarshalled =
         [''{"type":"message_start"}'',
          ''{"type":"content_block_delta","delta":{"type":"text","text":"a"}}'']\<rparr>)
   \<and> ResponseChunk.ID \<lparr>ResponseChunk.ID = [], ResponseChunk.Object = ''chat.completion.chunk'',
           ResponseChunk.Created = 1700000000, ResponseChunk.Model = [],
           ResponseChunk.Choices =
             [\<lparr>ChunkChoice.Index = 0,
               ChunkChoice.Delta = \<lparr>Message.Role = ''assistant'', Message.Content = ''a''\<rparr>,
               ChunkChoice.FinishReason = []\<rparr>]\<rparr> = []\<close>
proof -
  have recv: \<open>anthropicResponseStream_Recv example_anthropic_unmarshal 1700000000
     \<lparr>anthropicResponseStream.reader = NewSSEReader (body_of
        [''{"type":"message_start"}'',
         ''{"type":"content_block_delta","delta":{"type":"text","text":"a"}}'',
         ''{"type":"content_block_delta","delta":{"type":"text","text":"b"}}'',
         ''{"type":"message_stop"}''] io_EOF),
      anthropicResponseStream.rawReader = (), anthropicResponseStream.unmarshalled = []\<rparr>
   = (Inr \<lparr>ResponseChunk.ID = [], ResponseChunk.Object = ''chat.completion.chunk'',
           ResponseChunk.Created = 1700000000, ResponseChunk.Model = [],
           ResponseChunk.Choices =
             [\<lparr>ChunkChoice.Index = 0,
               ChunkChoice.Delta = \<lparr>Message.Role = ''assistant'', Message.Content = ''a''\<rparr>,
               ChunkChoice.FinishReason = []\<rparr>]\<rparr>,
      \<lparr>anthropicResponseStream.reader = NewSSEReader (body_of
        [''{"type":"content_block_delta","delta":{"type":"text","text":"b"}}'',
         ''{"type":"message_stop"}''] io_EOF),
       anthropicResponseStream.rawReader = (),
       anthropicResponseStream.unmarshalled =
         [''{"type":"message_start"}'',
          ''{"type":"content_block_delta","delta":{"type":"text","text":"a"}}'']\<rparr>)\<close>
    using
      anthropic_four_events(1)
        [where unmarshal = example_anthropic_unmarshal
           and ?d1.0 = \<open>''{"type":"message_start"}''\<close>
           and ?d2.0 = \<open>''{"type":"content_block_delta","delta":{"type":"text","text":"a"}}''\<close>
           and ?d3.0 = \<open>''{"type":"content_block_delta","delta":{"type":"text","text":"b"}}''\<close>
           and ?d4.0 = \<open>''{"type":"message_stop"}''\<close>
           and ?t1.0 = 1700000000 and fin = io_EOF and c = "()",
         OF _ example_anthropic_decodes(1) _ example_anthropic_decodes(2) _ _
              example_anthropic_decodes(3) _ _ example_anthropic_decodes(4)]
    by (simp add: AnthropicStreamResponse_zero_def ParseSSEData_def RoleAssistant_def)
  from C10_anthropic_chunk_shape [OF recv] recv show ?thesis
    by simp
qed

end
